theory Spec2Isabelle
  imports Main "HOL-Library.Sublist"
begin

section \<open>The clip endpoint of backend/src/index.ts\<close>

text \<open>
  The backend has one operation, the handler of \<open>POST /api/clip\<close>. It spawns the
  downloader (yt-dlp), resolves the file the downloader wrote, spawns the remuxer
  (ffmpeg) on that file, answers the client and removes temporary files.

  The handler is embedded as a function of the request, of the disk at request entry
  and of a record describing what the outside world does during the request: the clock,
  what each spawned process prints, how it ends and what it does to the disk, and
  which file-system calls fail. Strings are lists of 8-bit characters, read as the code
  units U+0000 to U+00FF. Paths are compared as written, as the source does.
\<close>

subsection \<open>Strings\<close>

text \<open>The decimal rendering of a number inside a template literal.\<close>

definition digit_char :: "nat \<Rightarrow> char" where
  "digit_char d = ''0123456789'' ! d"

fun string_of_nat :: "nat \<Rightarrow> string" where
  "string_of_nat n =
     (if n < 10 then [digit_char n]
      else string_of_nat (n div 10) @ [digit_char (n mod 10)])"

declare string_of_nat.simps [simp del]

definition string_of_int :: "int \<Rightarrow> string" where
  "string_of_int i = (if i < 0 then CHR ''-'' # string_of_nat (nat (- i)) else string_of_nat (nat i))"

text \<open>
  The characters a regular expression's \<open>.\<close> refuses (line terminators) and the
  characters \<open>String.prototype.trim\<close> strips, within the 8-bit range.
\<close>

definition is_line_terminator :: "char \<Rightarrow> bool" where
  "is_line_terminator c = (c = CHR 0x0A \<or> c = CHR 0x0D)"

definition is_white_space :: "char \<Rightarrow> bool" where
  "is_white_space c =
     (c = CHR 0x09 \<or> c = CHR 0x0A \<or> c = CHR 0x0B \<or> c = CHR 0x0C \<or> c = CHR 0x0D
      \<or> c = CHR 0x20 \<or> c = CHR 0xA0)"

definition trim :: "string \<Rightarrow> string" where
  "trim s = rev (dropWhile is_white_space (rev (dropWhile is_white_space s)))"

text \<open>
  \<open>output.match(/\[downlaod\] Destination: (.+)/)\<close>, line 85: the leftmost place where
  the literal text stands in front of at least one character that is not a line
  terminator; the group is the rest of that line. The literal is spelled as in the source.
\<close>

definition destination_literal :: string where
  "destination_literal = ''[downlaod] Destination: ''"

fun destination_match :: "string \<Rightarrow> string option" where
  "destination_match [] = None"
| "destination_match (c # cs) =
     (let rest = drop (length destination_literal) (c # cs) in
      if prefix destination_literal (c # cs) \<and> rest \<noteq> [] \<and> \<not> is_line_terminator (hd rest)
      then Some (takeWhile (\<lambda>d. \<not> is_line_terminator d) rest)
      else destination_match cs)"

subsection \<open>Paths and the disk\<close>

type_synonym path = string

text \<open>
  \<open>path.join(dir, name)\<close> and \<open>path.basename\<close> for a normalised directory and a plain
  name, which is all the handler passes to them.
\<close>

definition path_join :: "path \<Rightarrow> string \<Rightarrow> path" where
  "path_join dir name = dir @ ''/'' @ name"

definition path_basename :: "path \<Rightarrow> string" where
  "path_basename p = rev (takeWhile (\<lambda>c. c \<noteq> CHR ''/'') (rev p))"

text \<open>The disk: the regular files with their sizes, in directory-listing order.\<close>

type_synonym disk = "(path \<times> nat) list"

definition existsSync :: "disk \<Rightarrow> path \<Rightarrow> bool" where
  "existsSync d p = (p \<in> fst ` set d)"

definition statSync_size :: "disk \<Rightarrow> path \<Rightarrow> nat option" where
  "statSync_size d p = map_of d p"

definition entry_name :: "path \<Rightarrow> path \<Rightarrow> string option" where
  "entry_name dir p =
     (let name = drop (length dir + 1) p in
      if prefix (dir @ ''/'') p \<and> name \<noteq> [] \<and> CHR ''/'' \<notin> set name then Some name else None)"

definition dir_entries :: "disk \<Rightarrow> path \<Rightarrow> string list" where
  "dir_entries d dir = List.map_filter (\<lambda>(p, _). entry_name dir p) d"

definition remove_file :: "disk \<Rightarrow> path \<Rightarrow> disk" where
  "remove_file d p = filter (\<lambda>(q, _). q \<noteq> p) d"

subsection \<open>The outside world\<close>

text \<open>
  How a spawned process ends, as the handler sees it: the \<open>close\<close> event with its exit
  code (\<open>null\<close>, here \<open>None\<close>, when a signal ended the process), or the \<open>error\<close>
  event with the message of the operating system when the process could not start.
\<close>

datatype proc_end = Close "int option" | SpawnError string

record proc_run =
  stdout_chunks :: "string list"
  stderr_chunks :: "string list"
  ending :: proc_end
  effect :: "disk \<Rightarrow> disk"

record world =
  uploadsDir :: path
  now :: nat
  ytDlp :: proc_run
  ffmpeg :: proc_run
  readdir_throws :: bool
  unlink_fails :: "path \<Rightarrow> bool"

text \<open>A process that could not start leaves the disk as it was.\<close>

definition disk_after :: "proc_run \<Rightarrow> disk \<Rightarrow> disk" where
  "disk_after p d = (case ending p of Close _ \<Rightarrow> effect p d | SpawnError _ \<Rightarrow> d)"

definition readdirSync :: "world \<Rightarrow> disk \<Rightarrow> path \<Rightarrow> string list option" where
  "readdirSync w d dir = (if readdir_throws w then None else Some (dir_entries d dir))"

text \<open>\<open>${code}\<close> for an exit code.\<close>

definition show_code :: "int option \<Rightarrow> string" where
  "show_code c = (case c of None \<Rightarrow> ''null'' | Some i \<Rightarrow> string_of_int i)"

subsection \<open>The Segment Fetcher: runYtDlpDownload, lines 51 to 131\<close>

text \<open>The \<open>data\<close> handler of stdout, lines 80 to 93, as the update of \<open>detectedPath\<close>.\<close>

definition on_stdout :: "path \<Rightarrow> string option \<Rightarrow> string \<Rightarrow> string option" where
  "on_stdout outputPathBase detectedPath output =
     (case destination_match output of
        None \<Rightarrow> detectedPath
      | Some g \<Rightarrow>
          if g \<noteq> [] then
            (let filePath = trim g in
             if prefix outputPathBase filePath then Some filePath else detectedPath)
          else detectedPath)"

definition detect :: "path \<Rightarrow> string list \<Rightarrow> string option" where
  "detect outputPathBase chunks = foldl (on_stdout outputPathBase) None chunks"

text \<open>The directory search of the \<open>close\<close> handler, lines 104 to 117.\<close>

definition find_downloaded :: "world \<Rightarrow> disk \<Rightarrow> path \<Rightarrow> path option" where
  "find_downloaded w d outputPathBase =
     (case readdirSync w d (uploadsDir w) of
        None \<Rightarrow> None
      | Some files \<Rightarrow>
          (case find (\<lambda>f. prefix (path_basename outputPathBase) f) files of
             None \<Rightarrow> None
           | Some foundFile \<Rightarrow>
               (let fullPath = path_join (uploadsDir w) foundFile in
                if existsSync d fullPath then Some fullPath else None)))"

definition silent_failure_message :: "string \<Rightarrow> string" where
  "silent_failure_message processStderr =
     ''yt-dlp (muxed) indicated success, but no output file was found. Stderr: '' @ processStderr"

definition download_failed_message :: "int option \<Rightarrow> string \<Rightarrow> string" where
  "download_failed_message code processStderr =
     ''yt-dlp download (muxed) failed with code '' @ show_code code @ ''. Stderr: '' @ processStderr"

definition download_start_message :: "string \<Rightarrow> string" where
  "download_start_message msg = ''Failed to start yt-dlp (muxed): '' @ msg"

text \<open>The \<open>close\<close> handler, lines 95 to 124, on the disk the process left.\<close>

definition on_close :: "world \<Rightarrow> disk \<Rightarrow> path \<Rightarrow> string option \<Rightarrow> string \<Rightarrow> int option
    \<Rightarrow> string + path" where
  "on_close w d outputPathBase detectedPath processStderr code =
     (if code = Some 0 then
        (case detectedPath of
           Some p \<Rightarrow>
             if p \<noteq> [] \<and> existsSync d p then Inr p
             else (case find_downloaded w d outputPathBase of
                     Some fullPath \<Rightarrow> Inr fullPath
                   | None \<Rightarrow> Inl (silent_failure_message processStderr))
         | None \<Rightarrow>
             (case find_downloaded w d outputPathBase of
                Some fullPath \<Rightarrow> Inr fullPath
              | None \<Rightarrow> Inl (silent_failure_message processStderr)))
      else Inl (download_failed_message code processStderr))"

text \<open>
  The promise of \<open>runYtDlpDownload\<close>: \<open>Inr\<close> the resolved path, \<open>Inl\<close> the message of
  the error it rejects with. The disk is the one the download process left.
\<close>

definition runYtDlpDownload :: "world \<Rightarrow> disk \<Rightarrow> path \<Rightarrow> string + path" where
  "runYtDlpDownload w d outputPathBase =
     (let processStderr = concat (stderr_chunks (ytDlp w));
          detectedPath = detect outputPathBase (stdout_chunks (ytDlp w))
      in case ending (ytDlp w) of
           Close code \<Rightarrow> on_close w d outputPathBase detectedPath processStderr code
         | SpawnError msg \<Rightarrow> Inl (download_start_message msg))"

subsection \<open>The Trim/Remux stage, lines 150 to 183\<close>

definition remux_missing_message :: "string \<Rightarrow> string" where
  "remux_missing_message ffmpegStderr =
     ''FFmpeg remux failed: Output file missing or empty. Stderr: '' @ ffmpegStderr"

definition remux_failed_message :: "int option \<Rightarrow> string \<Rightarrow> string" where
  "remux_failed_message code ffmpegStderr =
     ''FFmpeg remux failed with code '' @ show_code code @ ''. Stderr: '' @ ffmpegStderr"

definition remux_start_message :: "string \<Rightarrow> string" where
  "remux_start_message msg = ''Failed to start ffmpeg: '' @ msg"

text \<open>The \<open>close\<close> handler of ffmpeg, lines 165 to 178, on the disk the process left.\<close>

definition ffmpeg_close :: "disk \<Rightarrow> path \<Rightarrow> string \<Rightarrow> int option \<Rightarrow> string + unit" where
  "ffmpeg_close d finalOutputPath ffmpegStderr code =
     (if code = Some 0 then
        (if existsSync d finalOutputPath
            \<and> (case statSync_size d finalOutputPath of Some n \<Rightarrow> 0 < n | None \<Rightarrow> False)
         then Inr ()
         else Inl (remux_missing_message ffmpegStderr))
      else Inl (remux_failed_message code ffmpegStderr))"

definition run_ffmpeg :: "world \<Rightarrow> disk \<Rightarrow> path \<Rightarrow> string + unit" where
  "run_ffmpeg w d finalOutputPath =
     (let ffmpegStderr = concat (stderr_chunks (ffmpeg w))
      in case ending (ffmpeg w) of
           Close code \<Rightarrow> ffmpeg_close d finalOutputPath ffmpegStderr code
         | SpawnError msg \<Rightarrow> Inl (remux_start_message msg))"

subsection \<open>Requests, responses and what the handler does in order\<close>

text \<open>
  The three fields of \<open>req.body\<close> the handler reads; \<open>None\<close> is an absent field.
  \<open>falsy\<close> is the test \<open>!x\<close> on such a field.
\<close>

record request =
  url :: "string option"
  startTime :: "string option"
  endTime :: "string option"

definition falsy :: "string option \<Rightarrow> bool" where
  "falsy v = (case v of None \<Rightarrow> True | Some s \<Rightarrow> s = [])"

definition template :: "string option \<Rightarrow> string" where
  "template v = (case v of None \<Rightarrow> ''undefined'' | Some s \<Rightarrow> s)"

datatype body =
    ClipOk string string
  | ClipError string "string option"

datatype response = Response nat body

datatype event =
    Spawn string "string list"
  | Respond response
  | Unlink path
  | ConsoleError string
  | CleanupFinished

definition bad_request :: response where
  "bad_request = Response 400 (ClipError ''URL is required'' None)"

definition server_error :: "string \<Rightarrow> response" where
  "server_error msg = Response 500 (ClipError ''Failed to process video section'' (Some msg))"

definition clip_success :: "path \<Rightarrow> response" where
  "clip_success p = Response 200 (ClipOk p ''Video section processed successfully'')"

text \<open>The names derived from the timestamp, lines 28 to 34 and 207.\<close>

definition tempMuxedPathBase :: "world \<Rightarrow> path" where
  "tempMuxedPathBase w = path_join (uploadsDir w) (''temp-muxed-'' @ string_of_nat (now w))"

definition finalOutputPath :: "world \<Rightarrow> path" where
  "finalOutputPath w = path_join (uploadsDir w) (''clip-'' @ string_of_nat (now w) @ ''.mp4'')"

definition partFilePath :: "world \<Rightarrow> path" where
  "partFilePath w = finalOutputPath w @ ''.part''"

text \<open>The argument lists of the two \<open>spawn\<close> calls, lines 60 to 71 and 150 to 156.\<close>

definition ytDlp_args :: "world \<Rightarrow> request \<Rightarrow> string list" where
  "ytDlp_args w req =
     [template (url req),
      ''-f'', ''bestvideo+bestaudio/best'',
      ''--download-sections'', ''*'' @ template (startTime req) @ ''-'' @ template (endTime req),
      ''-o'', tempMuxedPathBase w @ ''.%(ext)s'',
      ''--no-check-certificates'',
      ''--no-warnings'',
      ''--add-header'', ''referer:youtube.com'',
      ''--add-header'', ''user-agent:Mozilla/5.0'',
      ''--merge-output-format'', ''mp4'',
      ''--verbose'']"

definition ffmpeg_args :: "world \<Rightarrow> path \<Rightarrow> string list" where
  "ffmpeg_args w tempMuxedPath =
     [''-i'', tempMuxedPath, ''-c:v'', ''copy'', ''-c:a'', ''copy'', ''-y'', finalOutputPath w]"

subsection \<open>Cleanup: the finally block, lines 200 to 214\<close>

text \<open>
  \<open>unlinkAsync\<close> is a promise: \<open>Inl\<close> the error it rejects with, \<open>Inr\<close> the disk
  without the file.
\<close>

definition unlinkAsync :: "world \<Rightarrow> disk \<Rightarrow> path \<Rightarrow> string + disk" where
  "unlinkAsync w d p =
     (if \<not> existsSync d p then Inl (''Error: ENOENT: no such file or directory, unlink '' @ p)
      else if unlink_fails w p then Inl (''Error: EPERM: operation not permitted, unlink '' @ p)
      else Inr (remove_file d p))"

text \<open>\<open>promise.catch(err => console.error(label + err))\<close>: a rejection becomes a log line.\<close>

definition catch_log :: "string \<Rightarrow> disk \<Rightarrow> string + disk \<Rightarrow> string + disk \<times> event list" where
  "catch_log label d r =
     (case r of
        Inl err \<Rightarrow> Inr (d, [ConsoleError (label @ err)])
      | Inr d' \<Rightarrow> Inr (d', []))"

text \<open>
  \<open>Promise.all\<close> over the pushed promises: it rejects with the first rejection. The
  removals touch different paths, so they are run one after the other.
\<close>

fun promise_all :: "world \<Rightarrow> (path \<times> string) list \<Rightarrow> disk \<Rightarrow> string + disk \<times> event list" where
  "promise_all w [] d = Inr (d, [])"
| "promise_all w ((p, label) # ps) d =
     (case catch_log label d (unlinkAsync w d p) of
        Inl e \<Rightarrow> Inl e
      | Inr (d', logs) \<Rightarrow>
          (case promise_all w ps d' of
             Inl e \<Rightarrow> Inl e
           | Inr (d'', logs') \<Rightarrow> Inr (d'', logs @ logs')))"

definition cleanup_targets :: "world \<Rightarrow> disk \<Rightarrow> path option \<Rightarrow> (path \<times> string) list" where
  "cleanup_targets w d tempMuxedPath =
     (case tempMuxedPath of
        None \<Rightarrow> []
      | Some p \<Rightarrow>
          if p \<noteq> [] \<and> existsSync d p then [(p, ''Failed to delete temp muxed: '')] else [])
     @ (if existsSync d (partFilePath w)
        then [(partFilePath w, ''Failed to delete partial file: '')] else [])"

definition cleanup :: "world \<Rightarrow> disk \<Rightarrow> path option \<Rightarrow> string + disk \<times> event list" where
  "cleanup w d tempMuxedPath =
     (let CleanupPromises = cleanup_targets w d tempMuxedPath
      in case promise_all w CleanupPromises d of
           Inl e \<Rightarrow> Inl e
         | Inr (d', logs) \<Rightarrow>
             Inr (d', map (\<lambda>(p, _). Unlink p) CleanupPromises @ logs @ [CleanupFinished]))"

subsection \<open>The handler of /api/clip, lines 27 to 215\<close>

record progress =
  p_trace :: "event list"
  p_temp :: "path option"
  p_disk :: disk

text \<open>
  The body of the \<open>try\<close> block, lines 37 to 192: \<open>Inr\<close> the response it sends itself,
  \<open>Inl\<close> the message of the error it throws; with what it did, the value of
  \<open>tempMuxedPath\<close> and the disk at that moment.
\<close>

definition try_body :: "world \<Rightarrow> request \<Rightarrow> disk \<Rightarrow> (string + response) \<times> progress" where
  "try_body w req d =
     (if falsy (url req) \<or> falsy (startTime req) \<or> falsy (endTime req)
      then (Inr bad_request, \<lparr>p_trace = [], p_temp = None, p_disk = d\<rparr>)
      else
        (let t1 = [Spawn ''yt-dlp'' (ytDlp_args w req)];
             d1 = disk_after (ytDlp w) d
         in case runYtDlpDownload w d1 (tempMuxedPathBase w) of
              Inl downloadError \<Rightarrow>
                (Inl downloadError, \<lparr>p_trace = t1, p_temp = None, p_disk = d1\<rparr>)
            | Inr tempMuxedPath \<Rightarrow>
                if tempMuxedPath = []
                then (Inl ''Missing temporary muxed path after download.'',
                      \<lparr>p_trace = t1, p_temp = Some tempMuxedPath, p_disk = d1\<rparr>)
                else
                  (let t2 = t1 @ [Spawn ''ffmpeg'' (ffmpeg_args w tempMuxedPath)];
                       d2 = disk_after (ffmpeg w) d1
                   in case run_ffmpeg w d2 (finalOutputPath w) of
                        Inl e \<Rightarrow>
                          (Inl e, \<lparr>p_trace = t2, p_temp = Some tempMuxedPath, p_disk = d2\<rparr>)
                      | Inr _ \<Rightarrow>
                          (Inr (clip_success (finalOutputPath w)),
                           \<lparr>p_trace = t2, p_temp = Some tempMuxedPath, p_disk = d2\<rparr>))))"

record outcome =
  response :: response
  trace :: "event list"
  final_disk :: disk
  rejection :: "string option"

text \<open>
  The whole handler: the \<open>try\<close> block, the \<open>catch\<close> clause (lines 194 to 199) that
  turns a thrown error into the 500 response, then the \<open>finally\<close> block. \<open>rejection\<close>
  is the error the handler's own promise rejects with, if the \<open>finally\<close> block throws.
\<close>

definition clip_handler :: "world \<Rightarrow> request \<Rightarrow> disk \<Rightarrow> outcome" where
  "clip_handler w req d =
     (case try_body w req d of
        (r, pr) \<Rightarrow>
          (let resp = (case r of Inr sent \<Rightarrow> sent | Inl msg \<Rightarrow> server_error msg);
               t = p_trace pr @ [Respond resp]
           in case cleanup w (p_disk pr) (p_temp pr) of
                Inl e \<Rightarrow>
                  \<lparr>response = resp, trace = t, final_disk = p_disk pr, rejection = Some e\<rparr>
              | Inr (d', evs) \<Rightarrow>
                  \<lparr>response = resp, trace = t @ evs, final_disk = d', rejection = None\<rparr>))"

subsection \<open>Vocabulary of the properties\<close>

text \<open>
  The paths the \<open>finally\<close> block tries to remove, the disk and the value of
  \<open>tempMuxedPath\<close> when it starts, and the parts of the handler's record of events
  before and after the response.
\<close>

definition cleanup_paths :: "world \<Rightarrow> disk \<Rightarrow> path option \<Rightarrow> path set" where
  "cleanup_paths w d t = fst ` set (cleanup_targets w d t)"

definition disk_before_cleanup :: "world \<Rightarrow> request \<Rightarrow> disk \<Rightarrow> disk" where
  "disk_before_cleanup w req d = p_disk (snd (try_body w req d))"

definition tempMuxedPath_at_cleanup :: "world \<Rightarrow> request \<Rightarrow> disk \<Rightarrow> path option" where
  "tempMuxedPath_at_cleanup w req d = p_temp (snd (try_body w req d))"

definition is_spawn :: "event \<Rightarrow> bool" where
  "is_spawn e = (case e of Spawn _ _ \<Rightarrow> True | _ \<Rightarrow> False)"

definition is_cleanup_event :: "event \<Rightarrow> bool" where
  "is_cleanup_event e =
     (case e of Unlink _ \<Rightarrow> True | ConsoleError _ \<Rightarrow> True | CleanupFinished \<Rightarrow> True | _ \<Rightarrow> False)"

definition before_response :: "event list \<Rightarrow> event list" where
  "before_response t = takeWhile is_spawn t"

definition after_response :: "event list \<Rightarrow> event list" where
  "after_response t = tl (dropWhile is_spawn t)"

subsection \<open>Example requests, disks and worlds\<close>

text \<open>
  The request of the specification's example scenario and a request without its start
  time; worlds in which the pipeline succeeds, the download writes nothing, the download
  fails leaving a partial file, the remux fails, the download announces its destination
  in the spelling the handler looks for, and the temporary file cannot be deleted; a
  disk holding a stale partial output, and the disk of a finished pipeline.
\<close>

definition example_request :: request where
  "example_request =
     \<lparr>url = Some ''https://video.example/watch?id=42'',
      startTime = Some ''00:00:10'', endTime = Some ''00:00:20''\<rparr>"

definition no_start_request :: request where
  "no_start_request =
     \<lparr>url = Some ''https://video.example/watch?id=42'', startTime = None,
      endTime = Some ''00:00:20''\<rparr>"

definition ok_world :: world where
  "ok_world =
     \<lparr>uploadsDir = ''/srv/uploads'', now = 42,
      ytDlp = \<lparr>stdout_chunks = [''[download] Destination: /srv/uploads/temp-muxed-42.mp4''],
                stderr_chunks = [],
                ending = Close (Some 0),
                effect = (\<lambda>d. d @ [(''/srv/uploads/temp-muxed-42.mp4'', 2048)])\<rparr>,
      ffmpeg = \<lparr>stdout_chunks = [], stderr_chunks = [''frame=  240''],
                 ending = Close (Some 0),
                 effect = (\<lambda>d. d @ [(''/srv/uploads/clip-42.mp4'', 1024)])\<rparr>,
      readdir_throws = False, unlink_fails = (\<lambda>_. False)\<rparr>"

definition silent_world :: world where
  "silent_world =
     \<lparr>uploadsDir = ''/srv/uploads'', now = 42,
      ytDlp = \<lparr>stdout_chunks = [''[download] 100%''],
                stderr_chunks = [''WARNING: '', ''nothing written''],
                ending = Close (Some 0), effect = (\<lambda>d. d)\<rparr>,
      ffmpeg = \<lparr>stdout_chunks = [], stderr_chunks = [], ending = Close (Some 0),
                 effect = (\<lambda>d. d)\<rparr>,
      readdir_throws = False, unlink_fails = (\<lambda>_. False)\<rparr>"

definition failing_world :: world where
  "failing_world =
     \<lparr>uploadsDir = ''/srv/uploads'', now = 42,
      ytDlp = \<lparr>stdout_chunks = [],
                stderr_chunks = [''ERROR: unavailable''],
                ending = Close (Some 1),
                effect = (\<lambda>d. d @ [(''/srv/uploads/temp-muxed-42.mp4.part'', 512)])\<rparr>,
      ffmpeg = \<lparr>stdout_chunks = [], stderr_chunks = [], ending = Close (Some 0),
                 effect = (\<lambda>d. d @ [(''/srv/uploads/clip-42.mp4'', 900)])\<rparr>,
      readdir_throws = False, unlink_fails = (\<lambda>_. False)\<rparr>"

definition remux_failing_world :: world where
  "remux_failing_world =
     \<lparr>uploadsDir = ''/srv/uploads'', now = 42,
      ytDlp = \<lparr>stdout_chunks = [], stderr_chunks = [], ending = Close (Some 0),
                effect = (\<lambda>d. d @ [(''/srv/uploads/temp-muxed-42.mp4'', 2048)])\<rparr>,
      ffmpeg = \<lparr>stdout_chunks = [], stderr_chunks = [''Invalid data found''],
                 ending = Close (Some 1),
                 effect = (\<lambda>d. d @ [(''/srv/uploads/clip-42.mp4'', 0)])\<rparr>,
      readdir_throws = False, unlink_fails = (\<lambda>_. False)\<rparr>"

definition announced_world :: world where
  "announced_world =
     \<lparr>uploadsDir = ''/srv/uploads'', now = 42,
      ytDlp = \<lparr>stdout_chunks = [''[info] 42: Downloading 1 format(s)'',
                                 ''[downlaod] Destination: /srv/uploads/temp-muxed-42.webm  ''],
                stderr_chunks = [], ending = Close (Some 0),
                effect = (\<lambda>d. d @ [(''/srv/uploads/temp-muxed-42.webm'', 4096)])\<rparr>,
      ffmpeg = \<lparr>stdout_chunks = [], stderr_chunks = [], ending = Close (Some 0),
                 effect = (\<lambda>d. d @ [(''/srv/uploads/clip-42.mp4'', 1024)])\<rparr>,
      readdir_throws = False, unlink_fails = (\<lambda>_. False)\<rparr>"

definition locked_world :: world where
  "locked_world = ok_world\<lparr>unlink_fails := (\<lambda>p. p = ''/srv/uploads/temp-muxed-42.mp4'')\<rparr>"

definition stale_disk :: disk where
  "stale_disk = [(''/srv/uploads/clip-42.mp4.part'', 10)]"

definition after_remux_disk :: disk where
  "after_remux_disk =
     [(''/srv/uploads/clip-42.mp4.part'', 10), (''/srv/uploads/temp-muxed-42.mp4'', 2048),
      (''/srv/uploads/clip-42.mp4'', 1024)]"

section \<open>Properties\<close>

subsection \<open>Facts about the disk and the fetcher\<close>

lemma entry_name_path: "entry_name dir p = Some name \<Longrightarrow> p = path_join dir name"
  unfolding entry_name_def path_join_def Let_def
  by (auto split: if_splits simp: prefix_def)

lemma dir_entries_exist:
  assumes "f \<in> set (dir_entries d dir)"
  shows "existsSync d (path_join dir f)"
proof -
  from assms obtain p n where "(p, n) \<in> set d" and "entry_name dir p = Some f"
    unfolding dir_entries_def List.map_filter_def by (auto split: prod.splits)
  then show ?thesis
    unfolding existsSync_def using entry_name_path by force
qed

lemma find_downloaded_eq:
  "find_downloaded w d base =
     (if readdir_throws w then None
      else map_option (path_join (uploadsDir w))
             (find (prefix (path_basename base)) (dir_entries d (uploadsDir w))))"
proof (cases "find (prefix (path_basename base)) (dir_entries d (uploadsDir w))")
  case None
  then show ?thesis by (simp add: find_downloaded_def readdirSync_def)
next
  case (Some f)
  then have "f \<in> set (dir_entries d (uploadsDir w))"
    by (auto simp: find_Some_iff)
  then have "existsSync d (path_join (uploadsDir w) f)" by (rule dir_entries_exist)
  with Some show ?thesis by (simp add: find_downloaded_def readdirSync_def)
qed

lemma find_downloaded_nonempty: "find_downloaded w d base = Some p \<Longrightarrow> p \<noteq> []"
  by (auto simp: find_downloaded_eq path_join_def split: if_splits)

lemma on_stdout_prefix:
  "on_stdout base acc chunk = Some p \<Longrightarrow> acc = Some p \<or> prefix base p"
  unfolding on_stdout_def Let_def by (auto split: option.splits if_splits)

lemma detect_prefix_aux:
  "foldl (on_stdout base) acc chunks = Some p \<Longrightarrow> acc = Some p \<or> prefix base p"
proof (induction chunks arbitrary: acc)
  case Nil then show ?case by simp
next
  case (Cons c cs)
  from Cons.IH[of "on_stdout base acc c"] Cons.prems
  have "on_stdout base acc c = Some p \<or> prefix base p" by simp
  then show ?case using on_stdout_prefix by blast
qed

lemma detect_prefix: "detect base chunks = Some p \<Longrightarrow> prefix base p"
  unfolding detect_def using detect_prefix_aux[of base None chunks p] by simp

lemma on_stdout_origin:
  "on_stdout base acc chunk = Some p \<Longrightarrow>
     acc = Some p \<or> (\<exists>g. destination_match chunk = Some g \<and> p = trim g)"
  unfolding on_stdout_def Let_def by (auto split: option.splits if_splits)

lemma detect_origin_aux:
  "foldl (on_stdout base) acc chunks = Some p \<Longrightarrow>
     acc = Some p \<or> (\<exists>chunk \<in> set chunks. \<exists>g. destination_match chunk = Some g \<and> p = trim g)"
proof (induction chunks arbitrary: acc)
  case Nil then show ?case by simp
next
  case (Cons c cs)
  from Cons.IH[of "on_stdout base acc c"] Cons.prems
  have "on_stdout base acc c = Some p
        \<or> (\<exists>chunk \<in> set cs. \<exists>g. destination_match chunk = Some g \<and> p = trim g)" by simp
  then show ?case using on_stdout_origin[of base acc c p] by auto
qed

lemma silent_ne_failed: "silent_failure_message s \<noteq> download_failed_message code s'"
  by (simp add: silent_failure_message_def download_failed_message_def)

lemma missing_ne_failed: "remux_missing_message s \<noteq> remux_failed_message code s'"
  by (simp add: remux_missing_message_def remux_failed_message_def)

lemma runYtDlp_nonempty: "runYtDlpDownload w d base = Inr p \<Longrightarrow> p \<noteq> []"
  unfolding runYtDlpDownload_def on_close_def Let_def
  by (auto split: proc_end.splits if_splits option.splits dest: find_downloaded_nonempty)

lemma existsSync_filter:
  "existsSync (filter (\<lambda>(q, _). P q) d) p = (existsSync d p \<and> P p)"
  unfolding existsSync_def by force

lemma map_of_filter_keep:
  "P p \<Longrightarrow> map_of (filter (\<lambda>(q, _). P q) d) p = map_of d p"
  by (induction d) auto

lemma finalOutputPath_not_part: "finalOutputPath w \<noteq> partFilePath w"
  unfolding partFilePath_def by simp

subsection \<open>Facts about cleanup\<close>

lemma promise_all_result:
  "\<exists>logs. promise_all w ts d
       = Inr (filter (\<lambda>(q, _). unlink_fails w q \<or> q \<notin> fst ` set ts) d, logs)
     \<and> (\<forall>e \<in> set logs. \<exists>s. e = ConsoleError s)
     \<and> ((\<forall>p \<in> fst ` set ts. existsSync d p \<and> \<not> unlink_fails w p) \<and> distinct (map fst ts) \<longrightarrow> logs = [])"
proof (induction ts arbitrary: d)
  case Nil
  then show ?case by simp
next
  case (Cons t ts)
  obtain p label where t: "t = (p, label)" by (cases t)
  show ?case
  proof (cases "existsSync d p \<and> \<not> unlink_fails w p")
    case True
    let ?d1 = "remove_file d p"
    from Cons.IH[of ?d1] obtain logs where
      l: "promise_all w ts ?d1
            = Inr (filter (\<lambda>(q, _). unlink_fails w q \<or> q \<notin> fst ` set ts) ?d1, logs)"
      and l2: "\<forall>e \<in> set logs. \<exists>s. e = ConsoleError s"
      and l3: "(\<forall>p \<in> fst ` set ts. existsSync ?d1 p \<and> \<not> unlink_fails w p) \<and> distinct (map fst ts) \<longrightarrow> logs = []"
      by blast
    have f: "filter (\<lambda>(q, _). unlink_fails w q \<or> q \<notin> fst ` set ts) ?d1
           = filter (\<lambda>(q, _). unlink_fails w q \<or> q \<notin> fst ` set (t # ts)) d"
      unfolding remove_file_def filter_filter using True t
      by (intro filter_cong) auto
    have e: "\<And>q. q \<noteq> p \<Longrightarrow> existsSync ?d1 q = existsSync d q"
      unfolding remove_file_def by (simp add: existsSync_filter)
    have "promise_all w (t # ts) d
            = Inr (filter (\<lambda>(q, _). unlink_fails w q \<or> q \<notin> fst ` set (t # ts)) d, logs)"
      using True t l f by (simp add: unlinkAsync_def catch_log_def)
    moreover have "(\<forall>p \<in> fst ` set (t # ts). existsSync d p \<and> \<not> unlink_fails w p) \<and> distinct (map fst (t # ts)) \<longrightarrow> logs = []"
    proof
      assume a: "(\<forall>p \<in> fst ` set (t # ts). existsSync d p \<and> \<not> unlink_fails w p) \<and> distinct (map fst (t # ts))"
      then have np: "p \<notin> fst ` set ts" and dt: "distinct (map fst ts)" using t by auto
      have "\<forall>q \<in> fst ` set ts. existsSync ?d1 q \<and> \<not> unlink_fails w q"
      proof
        fix q assume q: "q \<in> fst ` set ts"
        then have "q \<noteq> p" using np by blast
        then have "existsSync ?d1 q = existsSync d q" by (rule e)
        moreover have "existsSync d q \<and> \<not> unlink_fails w q" using a q by auto
        ultimately show "existsSync ?d1 q \<and> \<not> unlink_fails w q" by simp
      qed
      with dt l3 show "logs = []" by blast
    qed
    ultimately show ?thesis using l2 by blast
  next
    case False
    from Cons.IH[of d] obtain logs where
      l: "promise_all w ts d
            = Inr (filter (\<lambda>(q, _). unlink_fails w q \<or> q \<notin> fst ` set ts) d, logs)"
      and l2: "\<forall>e \<in> set logs. \<exists>s. e = ConsoleError s"
      by blast
    have f: "filter (\<lambda>(q, _). unlink_fails w q \<or> q \<notin> fst ` set ts) d
           = filter (\<lambda>(q, _). unlink_fails w q \<or> q \<notin> fst ` set (t # ts)) d"
      using False t unfolding existsSync_def
      by (intro filter_cong) force+
    have "\<exists>err. unlinkAsync w d p = Inl err"
      using False by (simp add: unlinkAsync_def)
    then obtain err where u: "unlinkAsync w d p = Inl err" ..
    have "promise_all w (t # ts) d
            = Inr (filter (\<lambda>(q, _). unlink_fails w q \<or> q \<notin> fst ` set (t # ts)) d,
                   ConsoleError (label @ err) # logs)"
      using t l f u by (simp add: catch_log_def)
    moreover have "\<forall>e \<in> set (ConsoleError (label @ err) # logs). \<exists>s. e = ConsoleError s"
      using l2 by simp
    moreover have "\<not> (\<forall>p \<in> fst ` set (t # ts). existsSync d p \<and> \<not> unlink_fails w p)"
      using False t by simp
    ultimately show ?thesis by blast
  qed
qed

lemma cleanup_paths_iff:
  "q \<in> cleanup_paths w d t
     \<longleftrightarrow> existsSync d q \<and> ((q \<noteq> [] \<and> t = Some q) \<or> q = partFilePath w)"
  unfolding cleanup_paths_def cleanup_targets_def
  by (auto split: option.splits)

lemma cleanup_result:
  "\<exists>logs. cleanup w d t
       = Inr (filter (\<lambda>(q, _). unlink_fails w q \<or> q \<notin> cleanup_paths w d t) d,
              map (\<lambda>(p, _). Unlink p) (cleanup_targets w d t) @ logs @ [CleanupFinished])
     \<and> (\<forall>e \<in> set logs. \<exists>s. e = ConsoleError s)"
proof -
  from promise_all_result[of w "cleanup_targets w d t" d] obtain logs where
    "promise_all w (cleanup_targets w d t) d
       = Inr (filter (\<lambda>(q, _). unlink_fails w q \<or> q \<notin> fst ` set (cleanup_targets w d t)) d, logs)"
    and "\<forall>e \<in> set logs. \<exists>s. e = ConsoleError s" by blast
  then show ?thesis
    unfolding cleanup_def cleanup_paths_def Let_def by simp
qed

lemma cleanup_disk:
  assumes "cleanup w d t = Inr (d', evs)"
  shows "d' = filter (\<lambda>(q, _). unlink_fails w q \<or> q \<notin> cleanup_paths w d t) d"
  using cleanup_result[of w d t] assms by auto

lemma cleanup_exists:
  assumes "cleanup w d t = Inr (d', evs)"
  shows "existsSync d' q = (existsSync d q \<and> (unlink_fails w q \<or> q \<notin> cleanup_paths w d t))"
  unfolding cleanup_disk[OF assms] by (simp add: existsSync_filter)

lemma cleanup_noop:
  assumes "cleanup_targets w d t = []"
  shows "cleanup w d t = Inr (d, [CleanupFinished])"
  using assms unfolding cleanup_def Let_def by simp

lemma cleanup_twice_disk:
  assumes "cleanup w d t = Inr (d', evs)" and "cleanup w d' t = Inr (d'', evs')"
  shows "d'' = d'"
proof -
  have "filter (\<lambda>(q, _). unlink_fails w q \<or> q \<notin> cleanup_paths w d' t) d' = d'"
    unfolding filter_id_conv
  proof
    fix x assume x: "x \<in> set d'"
    obtain q n where xq: "x = (q, n)" by (cases x)
    from x xq have ex: "existsSync d' q" unfolding existsSync_def by force
    then have "unlink_fails w q \<or> q \<notin> cleanup_paths w d t"
      using cleanup_exists[OF assms(1), of q] by simp
    moreover have "q \<in> cleanup_paths w d' t \<Longrightarrow> q \<in> cleanup_paths w d t"
      using cleanup_exists[OF assms(1), of q] by (simp add: cleanup_paths_iff)
    ultimately show "case x of (q, _) \<Rightarrow> unlink_fails w q \<or> q \<notin> cleanup_paths w d' t"
      using xq by auto
  qed
  then show ?thesis using cleanup_disk[OF assms(2)] by simp
qed

lemma cleanup_second_noop:
  assumes "cleanup w d t = Inr (d', evs)" and "\<And>q. \<not> unlink_fails w q"
  shows "cleanup w d' t = Inr (d', [CleanupFinished])"
proof -
  have "\<And>q. q \<notin> cleanup_paths w d' t"
    using cleanup_exists[OF assms(1)] assms(2) by (auto simp: cleanup_paths_iff)
  then have "cleanup_targets w d' t = []"
    unfolding cleanup_paths_def by (cases "cleanup_targets w d' t") force+
  then show ?thesis by (rule cleanup_noop)
qed

lemma cleanup_unlink_events:
  assumes "cleanup w d t = Inr (d1, evs1)"
  shows "(Unlink q \<in> set evs1) = (q \<in> cleanup_paths w d t)"
proof -
  from cleanup_result[of w d t] assms obtain logs where
    e: "evs1 = map (\<lambda>(p, _). Unlink p) (cleanup_targets w d t) @ logs @ [CleanupFinished]"
    and l: "\<forall>e \<in> set logs. \<exists>s. e = ConsoleError s" by auto
  have "Unlink q \<notin> set logs" using l by auto
  then show ?thesis unfolding e cleanup_paths_def by force
qed

subsection \<open>Facts about the handler\<close>

lemma fetch_unlink_irrelevant:
  "runYtDlpDownload (w\<lparr>unlink_fails := f\<rparr>) d base = runYtDlpDownload w d base"
proof -
  have "find_downloaded (w\<lparr>unlink_fails := f\<rparr>) d base = find_downloaded w d base"
    by (simp add: find_downloaded_eq)
  then have "\<And>det s c. on_close (w\<lparr>unlink_fails := f\<rparr>) d base det s c = on_close w d base det s c"
    by (simp only: on_close_def)
  then show ?thesis unfolding runYtDlpDownload_def by (simp split: proc_end.splits)
qed

lemma ffmpeg_unlink_irrelevant:
  "run_ffmpeg (w\<lparr>unlink_fails := f\<rparr>) d fp = run_ffmpeg w d fp"
  unfolding run_ffmpeg_def by simp

lemma names_unlink_irrelevant:
  "tempMuxedPathBase (w\<lparr>unlink_fails := f\<rparr>) = tempMuxedPathBase w"
  "finalOutputPath (w\<lparr>unlink_fails := f\<rparr>) = finalOutputPath w"
  "ytDlp_args (w\<lparr>unlink_fails := f\<rparr>) req = ytDlp_args w req"
  "ffmpeg_args (w\<lparr>unlink_fails := f\<rparr>) p = ffmpeg_args w p"
  "ytDlp (w\<lparr>unlink_fails := f\<rparr>) = ytDlp w"
  "ffmpeg (w\<lparr>unlink_fails := f\<rparr>) = ffmpeg w"
  unfolding tempMuxedPathBase_def finalOutputPath_def ytDlp_args_def ffmpeg_args_def by simp_all

lemma try_body_unlink_irrelevant:
  "try_body (w\<lparr>unlink_fails := f\<rparr>) req d = try_body w req d"
  unfolding try_body_def
  by (simp only: fetch_unlink_irrelevant ffmpeg_unlink_irrelevant names_unlink_irrelevant)

lemma clip_handler_response:
  "response (clip_handler w req d)
     = (case fst (try_body w req d) of Inr sent \<Rightarrow> sent | Inl msg \<Rightarrow> server_error msg)"
  unfolding clip_handler_def Let_def
  by (auto split: prod.splits sum.splits)

lemma clip_handler_rejection: "rejection (clip_handler w req d) = None"
proof -
  obtain r pr where t: "try_body w req d = (r, pr)" by (cases "try_body w req d")
  from cleanup_result[of w "p_disk pr" "p_temp pr"] obtain d' evs
    where "cleanup w (p_disk pr) (p_temp pr) = Inr (d', evs)" by blast
  with t show ?thesis unfolding clip_handler_def Let_def by simp
qed

lemma try_body_invalid:
  assumes "falsy (url req) \<or> falsy (startTime req) \<or> falsy (endTime req)"
  shows "try_body w req d = (Inr bad_request, \<lparr>p_trace = [], p_temp = None, p_disk = d\<rparr>)"
  using assms unfolding try_body_def by simp

lemma try_body_fetch_failed:
  assumes "\<not> falsy (url req)" "\<not> falsy (startTime req)" "\<not> falsy (endTime req)"
    and "runYtDlpDownload w (disk_after (ytDlp w) d) (tempMuxedPathBase w) = Inl e"
  shows "try_body w req d
           = (Inl e, \<lparr>p_trace = [Spawn ''yt-dlp'' (ytDlp_args w req)], p_temp = None,
                      p_disk = disk_after (ytDlp w) d\<rparr>)"
  using assms unfolding try_body_def Let_def by simp

lemma try_body_fetched:
  assumes "\<not> falsy (url req)" "\<not> falsy (startTime req)" "\<not> falsy (endTime req)"
    and "runYtDlpDownload w (disk_after (ytDlp w) d) (tempMuxedPathBase w) = Inr p"
  shows "try_body w req d
           = ((case run_ffmpeg w (disk_after (ffmpeg w) (disk_after (ytDlp w) d)) (finalOutputPath w) of
                 Inl e \<Rightarrow> Inl e
               | Inr _ \<Rightarrow> Inr (clip_success (finalOutputPath w))),
              \<lparr>p_trace = [Spawn ''yt-dlp'' (ytDlp_args w req), Spawn ''ffmpeg'' (ffmpeg_args w p)],
                p_temp = Some p,
                p_disk = disk_after (ffmpeg w) (disk_after (ytDlp w) d)\<rparr>)"
proof -
  have "p \<noteq> []" using assms(4) by (rule runYtDlp_nonempty)
  then show ?thesis
    using assms unfolding try_body_def Let_def by (simp split: sum.splits)
qed

lemma clip_handler_eq:
  assumes "try_body w req d = (r, pr)"
  shows "\<exists>logs. clip_handler w req d
           = \<lparr>response = (case r of Inr s \<Rightarrow> s | Inl msg \<Rightarrow> server_error msg),
              trace = p_trace pr @ [Respond (case r of Inr s \<Rightarrow> s | Inl msg \<Rightarrow> server_error msg)]
                      @ map (\<lambda>(p, _). Unlink p) (cleanup_targets w (p_disk pr) (p_temp pr))
                      @ logs @ [CleanupFinished],
              final_disk = filter (\<lambda>(q, _). unlink_fails w q
                                     \<or> q \<notin> cleanup_paths w (p_disk pr) (p_temp pr)) (p_disk pr),
              rejection = None\<rparr>
         \<and> (\<forall>e \<in> set logs. \<exists>s. e = ConsoleError s)"
proof -
  from cleanup_result[of w "p_disk pr" "p_temp pr"] obtain logs where
    c: "cleanup w (p_disk pr) (p_temp pr)
       = Inr (filter (\<lambda>(q, _). unlink_fails w q \<or> q \<notin> cleanup_paths w (p_disk pr) (p_temp pr)) (p_disk pr),
              map (\<lambda>(p, _). Unlink p) (cleanup_targets w (p_disk pr) (p_temp pr)) @ logs @ [CleanupFinished])"
    and l: "\<forall>e \<in> set logs. \<exists>s. e = ConsoleError s" by blast
  have "clip_handler w req d
           = \<lparr>response = (case r of Inr s \<Rightarrow> s | Inl msg \<Rightarrow> server_error msg),
              trace = p_trace pr @ [Respond (case r of Inr s \<Rightarrow> s | Inl msg \<Rightarrow> server_error msg)]
                      @ map (\<lambda>(p, _). Unlink p) (cleanup_targets w (p_disk pr) (p_temp pr))
                      @ logs @ [CleanupFinished],
              final_disk = filter (\<lambda>(q, _). unlink_fails w q
                                     \<or> q \<notin> cleanup_paths w (p_disk pr) (p_temp pr)) (p_disk pr),
              rejection = None\<rparr>"
    unfolding clip_handler_def Let_def using assms c by simp
  with l show ?thesis by blast
qed

lemma clip_handler_final_exists:
  assumes "try_body w req d = (r, pr)"
  shows "existsSync (final_disk (clip_handler w req d)) q
           = (existsSync (p_disk pr) q
              \<and> (unlink_fails w q \<or> q \<notin> cleanup_paths w (p_disk pr) (p_temp pr)))"
  using clip_handler_eq[OF assms] by (auto simp: existsSync_filter)

lemma takeWhile_spawn_append:
  assumes "list_all is_spawn pre" and "\<not> is_spawn x"
  shows "takeWhile is_spawn (pre @ x # post) = pre" and "dropWhile is_spawn (pre @ x # post) = x # post"
  using assms by (induction pre) auto

subsection \<open>The examples, evaluated\<close>

lemma string_of_nat_42: "string_of_nat 42 = ''42''"
  by (simp add: string_of_nat.simps digit_char_def)

lemma string_of_int_1: "string_of_int 1 = ''1''"
  by (simp add: string_of_int_def string_of_nat.simps digit_char_def)

lemmas eval_defs =
  tempMuxedPathBase_def finalOutputPath_def partFilePath_def path_join_def path_basename_def
  string_of_nat_42 disk_after_def runYtDlpDownload_def on_close_def detect_def on_stdout_def
  destination_literal_def find_downloaded_def readdirSync_def dir_entries_def entry_name_def
  existsSync_def statSync_size_def run_ffmpeg_def ffmpeg_close_def falsy_def template_def
  ytDlp_args_def ffmpeg_args_def cleanup_def cleanup_targets_def unlinkAsync_def catch_log_def
  remove_file_def try_body_def clip_handler_def bad_request_def server_error_def clip_success_def
  silent_failure_message_def download_failed_message_def download_start_message_def
  remux_missing_message_def remux_failed_message_def remux_start_message_def show_code_def
  string_of_int_1 trim_def is_white_space_def is_line_terminator_def Let_def

lemma example_request_valid:
  "\<not> falsy (url example_request)" "\<not> falsy (startTime example_request)"
  "\<not> falsy (endTime example_request)"
  by (simp_all add: example_request_def falsy_def)

lemma ok_names:
  "tempMuxedPathBase ok_world = ''/srv/uploads/temp-muxed-42''"
  "finalOutputPath ok_world = ''/srv/uploads/clip-42.mp4''"
  "partFilePath ok_world = ''/srv/uploads/clip-42.mp4.part''"
  by (simp_all add: ok_world_def eval_defs)

lemma ok_fetch:
  "runYtDlpDownload ok_world (disk_after (ytDlp ok_world) []) (tempMuxedPathBase ok_world)
     = Inr ''/srv/uploads/temp-muxed-42.mp4''"
  by (simp add: ok_world_def eval_defs)

lemma ok_remux:
  "run_ffmpeg ok_world (disk_after (ffmpeg ok_world) (disk_after (ytDlp ok_world) []))
     (finalOutputPath ok_world) = Inr ()"
  by (simp add: ok_world_def eval_defs)

lemma ok_handler:
  "clip_handler ok_world example_request []
     = \<lparr>response = Response 200 (ClipOk ''/srv/uploads/clip-42.mp4''
                                      ''Video section processed successfully''),
        trace = [Spawn ''yt-dlp''
                   [''https://video.example/watch?id=42'', ''-f'', ''bestvideo+bestaudio/best'',
                    ''--download-sections'', ''*00:00:10-00:00:20'',
                    ''-o'', ''/srv/uploads/temp-muxed-42.%(ext)s'',
                    ''--no-check-certificates'', ''--no-warnings'',
                    ''--add-header'', ''referer:youtube.com'',
                    ''--add-header'', ''user-agent:Mozilla/5.0'',
                    ''--merge-output-format'', ''mp4'', ''--verbose''],
                 Spawn ''ffmpeg''
                   [''-i'', ''/srv/uploads/temp-muxed-42.mp4'', ''-c:v'', ''copy'',
                    ''-c:a'', ''copy'', ''-y'', ''/srv/uploads/clip-42.mp4''],
                 Respond (Response 200 (ClipOk ''/srv/uploads/clip-42.mp4''
                                          ''Video section processed successfully'')),
                 Unlink ''/srv/uploads/temp-muxed-42.mp4'',
                 CleanupFinished],
        final_disk = [(''/srv/uploads/clip-42.mp4'', 1024)],
        rejection = None\<rparr>"
  by (simp add: ok_world_def example_request_def eval_defs)

lemma failing_names:
  "tempMuxedPathBase failing_world = ''/srv/uploads/temp-muxed-42''"
  "finalOutputPath failing_world = ''/srv/uploads/clip-42.mp4''"
  "partFilePath failing_world = ''/srv/uploads/clip-42.mp4.part''"
  by (simp_all add: failing_world_def eval_defs)

lemma failing_fetch:
  "runYtDlpDownload failing_world (disk_after (ytDlp failing_world) []) (tempMuxedPathBase failing_world)
     = Inl ''yt-dlp download (muxed) failed with code 1. Stderr: ERROR: unavailable''"
  by (simp add: failing_world_def eval_defs)

lemma failing_handler:
  "clip_handler failing_world example_request []
     = \<lparr>response = Response 500 (ClipError ''Failed to process video section''
               (Some ''yt-dlp download (muxed) failed with code 1. Stderr: ERROR: unavailable'')),
        trace = [Spawn ''yt-dlp''
                   [''https://video.example/watch?id=42'', ''-f'', ''bestvideo+bestaudio/best'',
                    ''--download-sections'', ''*00:00:10-00:00:20'',
                    ''-o'', ''/srv/uploads/temp-muxed-42.%(ext)s'',
                    ''--no-check-certificates'', ''--no-warnings'',
                    ''--add-header'', ''referer:youtube.com'',
                    ''--add-header'', ''user-agent:Mozilla/5.0'',
                    ''--merge-output-format'', ''mp4'', ''--verbose''],
                 Respond (Response 500 (ClipError ''Failed to process video section''
                   (Some ''yt-dlp download (muxed) failed with code 1. Stderr: ERROR: unavailable''))),
                 CleanupFinished],
        final_disk = [(''/srv/uploads/temp-muxed-42.mp4.part'', 512)],
        rejection = None\<rparr>"
  by (simp add: failing_world_def example_request_def eval_defs)

lemma remux_failing_fetch:
  "runYtDlpDownload remux_failing_world (disk_after (ytDlp remux_failing_world) [])
     (tempMuxedPathBase remux_failing_world) = Inr ''/srv/uploads/temp-muxed-42.mp4''"
  by (simp add: remux_failing_world_def eval_defs)

lemma remux_failing_remux:
  "run_ffmpeg remux_failing_world
     (disk_after (ffmpeg remux_failing_world) (disk_after (ytDlp remux_failing_world) []))
     (finalOutputPath remux_failing_world)
     = Inl ''FFmpeg remux failed with code 1. Stderr: Invalid data found''"
  by (simp add: remux_failing_world_def eval_defs)

lemma locked_names:
  "partFilePath locked_world = ''/srv/uploads/clip-42.mp4.part''"
  "unlink_fails locked_world p = (p = ''/srv/uploads/temp-muxed-42.mp4'')"
  by (simp_all add: locked_world_def ok_world_def eval_defs)

subsection \<open>C1: what remains on disk after a request\<close>

text \<open>
  C1, as the code has it: after the request, the \<open>finalPath + ".part"\<close> fragment is gone
  unless its deletion failed, and so is the file the Fetcher resolved, if it resolved
  one; every other path, whatever its name, is on the disk exactly if the pipeline left
  it there.
\<close>

theorem cleanup_removes_resolved_and_part:
  "(\<not> unlink_fails w (partFilePath w) \<longrightarrow>
      \<not> existsSync (final_disk (clip_handler w req d)) (partFilePath w))
   \<and> (\<not> falsy (url req) \<and> \<not> falsy (startTime req) \<and> \<not> falsy (endTime req)
        \<and> runYtDlpDownload w (disk_after (ytDlp w) d) (tempMuxedPathBase w) = Inr p
        \<and> \<not> unlink_fails w p \<longrightarrow>
      \<not> existsSync (final_disk (clip_handler w req d)) p)
   \<and> (q \<noteq> partFilePath w
        \<and> \<not> (\<not> falsy (url req) \<and> \<not> falsy (startTime req) \<and> \<not> falsy (endTime req)
              \<and> runYtDlpDownload w (disk_after (ytDlp w) d) (tempMuxedPathBase w) = Inr q) \<longrightarrow>
      existsSync (final_disk (clip_handler w req d)) q
        = existsSync (disk_before_cleanup w req d) q)"
proof -
  obtain r pr where t: "try_body w req d = (r, pr)" by (cases "try_body w req d")
  note ex = clip_handler_final_exists[OF t]
  have temp: "p_temp pr = Some x \<longleftrightarrow>
      (\<not> falsy (url req) \<and> \<not> falsy (startTime req) \<and> \<not> falsy (endTime req)
        \<and> runYtDlpDownload w (disk_after (ytDlp w) d) (tempMuxedPathBase w) = Inr x)" for x
  proof (cases "falsy (url req) \<or> falsy (startTime req) \<or> falsy (endTime req)")
    case True
    from try_body_invalid[OF True, of w d] t True show ?thesis by auto
  next
    case False
    then have v: "\<not> falsy (url req)" "\<not> falsy (startTime req)" "\<not> falsy (endTime req)" by auto
    show ?thesis
    proof (cases "runYtDlpDownload w (disk_after (ytDlp w) d) (tempMuxedPathBase w)")
      case (Inl e)
      from try_body_fetch_failed[OF v Inl] t Inl show ?thesis by auto
    next
      case (Inr p)
      from try_body_fetched[OF v Inr] t Inr v show ?thesis by auto
    qed
  qed
  have a: "\<not> unlink_fails w (partFilePath w) \<longrightarrow>
      \<not> existsSync (final_disk (clip_handler w req d)) (partFilePath w)"
    unfolding ex by (simp add: cleanup_paths_iff)
  have b: "\<not> falsy (url req) \<and> \<not> falsy (startTime req) \<and> \<not> falsy (endTime req)
        \<and> runYtDlpDownload w (disk_after (ytDlp w) d) (tempMuxedPathBase w) = Inr p
        \<and> \<not> unlink_fails w p \<longrightarrow>
      \<not> existsSync (final_disk (clip_handler w req d)) p"
  proof
    assume h: "\<not> falsy (url req) \<and> \<not> falsy (startTime req) \<and> \<not> falsy (endTime req)
        \<and> runYtDlpDownload w (disk_after (ytDlp w) d) (tempMuxedPathBase w) = Inr p
        \<and> \<not> unlink_fails w p"
    then have "p_temp pr = Some p" using temp[of p] by simp
    moreover have "p \<noteq> []" using h runYtDlp_nonempty by blast
    ultimately show "\<not> existsSync (final_disk (clip_handler w req d)) p"
      unfolding ex using h by (simp add: cleanup_paths_iff)
  qed
  have c: "q \<noteq> partFilePath w
        \<and> \<not> (\<not> falsy (url req) \<and> \<not> falsy (startTime req) \<and> \<not> falsy (endTime req)
              \<and> runYtDlpDownload w (disk_after (ytDlp w) d) (tempMuxedPathBase w) = Inr q) \<longrightarrow>
      existsSync (final_disk (clip_handler w req d)) q
        = existsSync (disk_before_cleanup w req d) q"
  proof
    assume h: "q \<noteq> partFilePath w
        \<and> \<not> (\<not> falsy (url req) \<and> \<not> falsy (startTime req) \<and> \<not> falsy (endTime req)
              \<and> runYtDlpDownload w (disk_after (ytDlp w) d) (tempMuxedPathBase w) = Inr q)"
    then have "p_temp pr \<noteq> Some q" using temp[of q] by simp
    then have "q \<notin> cleanup_paths w (p_disk pr) (p_temp pr)"
      using h by (simp add: cleanup_paths_iff)
    then show "existsSync (final_disk (clip_handler w req d)) q
        = existsSync (disk_before_cleanup w req d) q"
      unfolding ex disk_before_cleanup_def t by simp
  qed
  show ?thesis using a b c by blast
qed

text \<open>
  C1 as stated fails: a download that exits with code 1 after writing a partial file
  named \<open>temp-muxed-42.mp4.part\<close> into the uploads directory resolves no path, and
  the file is still there when the request has completed.
\<close>

theorem partial_download_remains:
  "existsSync (final_disk (clip_handler failing_world example_request []))
     ''/srv/uploads/temp-muxed-42.mp4.part''
   \<and> entry_name (uploadsDir failing_world) ''/srv/uploads/temp-muxed-42.mp4.part''
       = Some ''temp-muxed-42.mp4.part''
   \<and> prefix (''temp-muxed-'' @ string_of_nat (now failing_world)) ''temp-muxed-42.mp4.part''"
  by (simp add: failing_handler)
     (simp add: failing_world_def existsSync_def entry_name_def string_of_nat_42)

text \<open>
  C1, as the code has it, at the successful run of the example on a disk with a stale
  partial output: both are removed and the final clip stays.
\<close>

theorem cleanup_removes_resolved_and_part_witness:
  "\<not> existsSync (final_disk (clip_handler ok_world example_request stale_disk))
       ''/srv/uploads/clip-42.mp4.part''
   \<and> \<not> existsSync (final_disk (clip_handler ok_world example_request stale_disk))
       ''/srv/uploads/temp-muxed-42.mp4''
   \<and> existsSync (final_disk (clip_handler ok_world example_request stale_disk))
       ''/srv/uploads/clip-42.mp4''"
proof -
  have f: "runYtDlpDownload ok_world (disk_after (ytDlp ok_world) stale_disk) (tempMuxedPathBase ok_world)
             = Inr ''/srv/uploads/temp-muxed-42.mp4''"
    by (simp add: ok_world_def stale_disk_def eval_defs)
  have u: "\<not> unlink_fails ok_world ''/srv/uploads/temp-muxed-42.mp4''"
    "\<not> unlink_fails ok_world (partFilePath ok_world)"
    by (simp_all add: ok_world_def)
  have b: "existsSync (disk_before_cleanup ok_world example_request stale_disk)
             ''/srv/uploads/clip-42.mp4''"
    by (simp add: disk_before_cleanup_def ok_world_def example_request_def stale_disk_def eval_defs)
  have n: "''/srv/uploads/clip-42.mp4'' \<noteq> partFilePath ok_world"
    "runYtDlpDownload ok_world (disk_after (ytDlp ok_world) stale_disk) (tempMuxedPathBase ok_world)
       \<noteq> Inr ''/srv/uploads/clip-42.mp4''"
    using f by (simp_all add: ok_names)
  from cleanup_removes_resolved_and_part[of ok_world example_request stale_disk
      "''/srv/uploads/temp-muxed-42.mp4''" "''/srv/uploads/clip-42.mp4''"]
    f u b n example_request_valid
  show ?thesis by (simp add: ok_names)
qed

subsection \<open>C2: the order of response and cleanup\<close>

text \<open>
  C2, as the code has it: on every path the handler first sends the response and then runs
  Cleanup. The record of events is the spawns, then the response, then the events of
  Cleanup, which are exactly what the \<open>finally\<close> block does on the disk the \<open>try\<close>
  block left; the last event is the end of Cleanup.
\<close>

theorem response_then_cleanup:
  "trace (clip_handler w req d)
     = before_response (trace (clip_handler w req d))
       @ Respond (response (clip_handler w req d))
       # after_response (trace (clip_handler w req d))
   \<and> list_all is_spawn (before_response (trace (clip_handler w req d)))
   \<and> list_all is_cleanup_event (after_response (trace (clip_handler w req d)))
   \<and> last (trace (clip_handler w req d)) = CleanupFinished
   \<and> cleanup w (disk_before_cleanup w req d) (tempMuxedPath_at_cleanup w req d)
       = Inr (final_disk (clip_handler w req d), after_response (trace (clip_handler w req d)))"
proof -
  obtain r pr where t: "try_body w req d = (r, pr)" by (cases "try_body w req d")
  let ?resp = "case r of Inr s \<Rightarrow> s | Inl msg \<Rightarrow> server_error msg"
  from cleanup_result[of w "p_disk pr" "p_temp pr"] obtain logs where
    c: "cleanup w (p_disk pr) (p_temp pr)
       = Inr (filter (\<lambda>(q, _). unlink_fails w q \<or> q \<notin> cleanup_paths w (p_disk pr) (p_temp pr)) (p_disk pr),
              map (\<lambda>(p, _). Unlink p) (cleanup_targets w (p_disk pr) (p_temp pr)) @ logs @ [CleanupFinished])"
    and l: "\<forall>e \<in> set logs. \<exists>s. e = ConsoleError s" by blast
  let ?post = "map (\<lambda>(p, _). Unlink p) (cleanup_targets w (p_disk pr) (p_temp pr)) @ logs @ [CleanupFinished]"
  have h: "clip_handler w req d
           = \<lparr>response = ?resp, trace = p_trace pr @ Respond ?resp # ?post,
              final_disk = filter (\<lambda>(q, _). unlink_fails w q
                                     \<or> q \<notin> cleanup_paths w (p_disk pr) (p_temp pr)) (p_disk pr),
              rejection = None\<rparr>"
    unfolding clip_handler_def Let_def using t c by simp
  have pre: "list_all is_spawn (p_trace pr)"
  proof (cases "falsy (url req) \<or> falsy (startTime req) \<or> falsy (endTime req)")
    case True
    from try_body_invalid[OF True, of w d] t show ?thesis by auto
  next
    case False
    then have v: "\<not> falsy (url req)" "\<not> falsy (startTime req)" "\<not> falsy (endTime req)" by auto
    show ?thesis
    proof (cases "runYtDlpDownload w (disk_after (ytDlp w) d) (tempMuxedPathBase w)")
      case (Inl e)
      from try_body_fetch_failed[OF v Inl] t show ?thesis by (auto simp: is_spawn_def)
    next
      case (Inr p)
      from try_body_fetched[OF v Inr] t show ?thesis by (auto simp: is_spawn_def)
    qed
  qed
  have nr: "\<not> is_spawn (Respond ?resp)" by (simp add: is_spawn_def)
  have post: "list_all is_cleanup_event ?post"
    using l by (auto simp: list_all_iff is_cleanup_event_def)
  have b: "before_response (trace (clip_handler w req d)) = p_trace pr"
    and a: "after_response (trace (clip_handler w req d)) = ?post"
    unfolding before_response_def after_response_def h
    using takeWhile_spawn_append[OF pre nr] by simp_all
  have 1: "trace (clip_handler w req d)
     = before_response (trace (clip_handler w req d))
       @ Respond (response (clip_handler w req d))
       # after_response (trace (clip_handler w req d))"
    unfolding a b unfolding h by simp
  have 2: "last (trace (clip_handler w req d)) = CleanupFinished"
    unfolding h by simp
  have 3: "cleanup w (disk_before_cleanup w req d) (tempMuxedPath_at_cleanup w req d)
       = Inr (final_disk (clip_handler w req d), after_response (trace (clip_handler w req d)))"
    unfolding a unfolding disk_before_cleanup_def tempMuxedPath_at_cleanup_def h t using c by simp
  show ?thesis using 1 2 3 pre post a b by simp
qed

text \<open>
  C2 as stated fails: in the successful run of the example the response is sent before
  the temporary file is unlinked.
\<close>

theorem response_sent_before_cleanup:
  "trace (clip_handler ok_world example_request [])
     = [Spawn ''yt-dlp''
          [''https://video.example/watch?id=42'', ''-f'', ''bestvideo+bestaudio/best'',
           ''--download-sections'', ''*00:00:10-00:00:20'',
           ''-o'', ''/srv/uploads/temp-muxed-42.%(ext)s'',
           ''--no-check-certificates'', ''--no-warnings'',
           ''--add-header'', ''referer:youtube.com'',
           ''--add-header'', ''user-agent:Mozilla/5.0'',
           ''--merge-output-format'', ''mp4'', ''--verbose''],
        Spawn ''ffmpeg''
          [''-i'', ''/srv/uploads/temp-muxed-42.mp4'', ''-c:v'', ''copy'',
           ''-c:a'', ''copy'', ''-y'', ''/srv/uploads/clip-42.mp4''],
        Respond (Response 200 (ClipOk ''/srv/uploads/clip-42.mp4''
                                 ''Video section processed successfully'')),
        Unlink ''/srv/uploads/temp-muxed-42.mp4'',
        CleanupFinished]"
  by (simp add: ok_handler)

text \<open>
  C2, as the code has it, at the successful run of the example: what follows the
  response is the unlinking of the temporary file and the end of Cleanup.
\<close>

theorem response_then_cleanup_witness:
  "after_response (trace (clip_handler ok_world example_request []))
     = [Unlink ''/srv/uploads/temp-muxed-42.mp4'', CleanupFinished]
   \<and> cleanup ok_world (disk_before_cleanup ok_world example_request [])
        (tempMuxedPath_at_cleanup ok_world example_request [])
       = Inr ([(''/srv/uploads/clip-42.mp4'', 1024)],
              [Unlink ''/srv/uploads/temp-muxed-42.mp4'', CleanupFinished])"
  using response_then_cleanup[of ok_world example_request "[]"]
  by (simp add: ok_handler after_response_def is_spawn_def)

subsection \<open>C3: the two rejections of the Fetcher\<close>

text \<open>
  C3: when the download process exits with code zero and no output file can be found
  (nothing usable was detected on stdout, and no entry of the uploads directory starts
  with the basename of the output base), the Fetcher rejects with the silent-failure
  error, which ends with the captured stderr. A non-zero exit code always rejects with
  the error that carries the code and the stderr. The two messages are never equal.
\<close>

theorem fetcher_rejections:
  "(ending (ytDlp w) = Close (Some 0)
      \<and> (detect base (stdout_chunks (ytDlp w)) = None
         \<or> (\<exists>p. detect base (stdout_chunks (ytDlp w)) = Some p \<and> \<not> existsSync d p))
      \<and> \<not> (\<exists>f \<in> set (dir_entries d (uploadsDir w)). prefix (path_basename base) f)
    \<longrightarrow> runYtDlpDownload w d base
          = Inl (silent_failure_message (concat (stderr_chunks (ytDlp w)))))
   \<and> (ending (ytDlp w) = Close code \<and> code \<noteq> Some 0
    \<longrightarrow> runYtDlpDownload w d base
          = Inl (download_failed_message code (concat (stderr_chunks (ytDlp w)))))
   \<and> silent_failure_message s \<noteq> download_failed_message code' s'
   \<and> suffix s (silent_failure_message s)
   \<and> suffix (show_code code' @ ''. Stderr: '' @ s') (download_failed_message code' s')"
proof (intro conjI impI)
  assume a: "ending (ytDlp w) = Close (Some 0)
      \<and> (detect base (stdout_chunks (ytDlp w)) = None
         \<or> (\<exists>p. detect base (stdout_chunks (ytDlp w)) = Some p \<and> \<not> existsSync d p))
      \<and> \<not> (\<exists>f \<in> set (dir_entries d (uploadsDir w)). prefix (path_basename base) f)"
  then have "find (prefix (path_basename base)) (dir_entries d (uploadsDir w)) = None"
    by (auto simp: find_None_iff)
  then have "find_downloaded w d base = None" by (simp add: find_downloaded_eq)
  with a show "runYtDlpDownload w d base
          = Inl (silent_failure_message (concat (stderr_chunks (ytDlp w))))"
    unfolding runYtDlpDownload_def on_close_def by auto
next
  assume "ending (ytDlp w) = Close code \<and> code \<noteq> Some 0"
  then show "runYtDlpDownload w d base
          = Inl (download_failed_message code (concat (stderr_chunks (ytDlp w))))"
    unfolding runYtDlpDownload_def on_close_def by simp
next
  show "silent_failure_message s \<noteq> download_failed_message code' s'" by (rule silent_ne_failed)
next
  show "suffix s (silent_failure_message s)"
    unfolding silent_failure_message_def by (rule suffix_appendI) simp
next
  show "suffix (show_code code' @ ''. Stderr: '' @ s') (download_failed_message code' s')"
    unfolding download_failed_message_def by (rule suffix_appendI) simp
qed

text \<open>C3 at a download that writes nothing and at a download that exits with code 1.\<close>

theorem fetcher_rejections_witness:
  "runYtDlpDownload silent_world [] ''/srv/uploads/temp-muxed-42''
     = Inl ''yt-dlp (muxed) indicated success, but no output file was found. Stderr: WARNING: nothing written''
   \<and> runYtDlpDownload failing_world [] ''/srv/uploads/temp-muxed-42''
     = Inl ''yt-dlp download (muxed) failed with code 1. Stderr: ERROR: unavailable''"
proof -
  have d: "detect ''/srv/uploads/temp-muxed-42'' (stdout_chunks (ytDlp silent_world)) = None"
    by (simp add: silent_world_def detect_def on_stdout_def destination_literal_def)
  have "ending (ytDlp silent_world) = Close (Some 0)
      \<and> (detect ''/srv/uploads/temp-muxed-42'' (stdout_chunks (ytDlp silent_world)) = None
         \<or> (\<exists>p. detect ''/srv/uploads/temp-muxed-42'' (stdout_chunks (ytDlp silent_world)) = Some p \<and> \<not> existsSync [] p))
      \<and> \<not> (\<exists>f \<in> set (dir_entries [] (uploadsDir silent_world)). prefix (path_basename ''/srv/uploads/temp-muxed-42'') f)"
    using d by (simp add: silent_world_def dir_entries_def)
  with fetcher_rejections[of silent_world "''/srv/uploads/temp-muxed-42''" "[]"]
  have a: "runYtDlpDownload silent_world [] ''/srv/uploads/temp-muxed-42''
     = Inl (silent_failure_message (concat (stderr_chunks (ytDlp silent_world))))"
    by blast
  have "ending (ytDlp failing_world) = Close (Some 1) \<and> Some (1::int) \<noteq> Some 0"
    by (simp add: failing_world_def)
  with fetcher_rejections[of failing_world "''/srv/uploads/temp-muxed-42''" "[]" "Some 1"]
  have b: "runYtDlpDownload failing_world [] ''/srv/uploads/temp-muxed-42''
     = Inl (download_failed_message (Some 1) (concat (stderr_chunks (ytDlp failing_world))))"
    by blast
  from a b show ?thesis
    by (simp add: silent_failure_message_def download_failed_message_def show_code_def
          string_of_int_1 silent_world_def failing_world_def)
qed

subsection \<open>C4: when the remux counts as a success\<close>

text \<open>
  C4: the Trim/Remux stage succeeds exactly if the transcode process exits with code
  zero and the final file exists with a size above zero. A zero exit code with a missing
  or empty file is a failure, with a message that differs from the message of a
  non-zero exit code. The handler answers with the success response only if the stage
  succeeded.
\<close>

theorem remux_success_condition:
  "(run_ffmpeg w d fp = Inr ())
     = (ending (ffmpeg w) = Close (Some 0) \<and> existsSync d fp
        \<and> (\<exists>n. statSync_size d fp = Some n \<and> 0 < n))
   \<and> (ending (ffmpeg w) = Close (Some 0)
        \<and> (\<not> existsSync d fp \<or> statSync_size d fp = Some 0)
      \<longrightarrow> run_ffmpeg w d fp = Inl (remux_missing_message (concat (stderr_chunks (ffmpeg w)))))
   \<and> (ending (ffmpeg w) = Close code \<and> code \<noteq> Some 0
      \<longrightarrow> run_ffmpeg w d fp = Inl (remux_failed_message code (concat (stderr_chunks (ffmpeg w)))))
   \<and> remux_missing_message s \<noteq> remux_failed_message code' s'
   \<and> (response (clip_handler w req d0) = clip_success (finalOutputPath w)
      \<longrightarrow> run_ffmpeg w (disk_after (ffmpeg w) (disk_after (ytDlp w) d0)) (finalOutputPath w) = Inr ())"
proof (intro conjI impI)
  show "(run_ffmpeg w d fp = Inr ())
     = (ending (ffmpeg w) = Close (Some 0) \<and> existsSync d fp
        \<and> (\<exists>n. statSync_size d fp = Some n \<and> 0 < n))"
    unfolding run_ffmpeg_def ffmpeg_close_def Let_def
    by (auto split: proc_end.splits option.splits if_splits)
next
  assume "ending (ffmpeg w) = Close (Some 0)
        \<and> (\<not> existsSync d fp \<or> statSync_size d fp = Some 0)"
  then show "run_ffmpeg w d fp = Inl (remux_missing_message (concat (stderr_chunks (ffmpeg w))))"
    unfolding run_ffmpeg_def ffmpeg_close_def by auto
next
  assume "ending (ffmpeg w) = Close code \<and> code \<noteq> Some 0"
  then show "run_ffmpeg w d fp = Inl (remux_failed_message code (concat (stderr_chunks (ffmpeg w))))"
    unfolding run_ffmpeg_def ffmpeg_close_def by simp
next
  show "remux_missing_message s \<noteq> remux_failed_message code' s'" by (rule missing_ne_failed)
next
  assume a: "response (clip_handler w req d0) = clip_success (finalOutputPath w)"
  have ne: "bad_request \<noteq> clip_success (finalOutputPath w)"
    "\<And>m. server_error m \<noteq> clip_success (finalOutputPath w)"
    by (simp_all add: bad_request_def server_error_def clip_success_def)
  show "run_ffmpeg w (disk_after (ffmpeg w) (disk_after (ytDlp w) d0)) (finalOutputPath w) = Inr ()"
  proof (cases "falsy (url req) \<or> falsy (startTime req) \<or> falsy (endTime req)")
    case True
    then show ?thesis using a ne
      by (simp add: clip_handler_response try_body_invalid)
  next
    case False
    show ?thesis
    proof (cases "runYtDlpDownload w (disk_after (ytDlp w) d0) (tempMuxedPathBase w)")
      case (Inl e)
      then show ?thesis using a ne False
        by (simp add: clip_handler_response try_body_fetch_failed)
    next
      case (Inr p)
      then show ?thesis using a ne False
        by (simp add: clip_handler_response try_body_fetched split: sum.splits)
    qed
  qed
qed

text \<open>
  C4 at a final file of 1024 bytes, at an empty final file, at exit code 1, and at the
  successful run of the example.
\<close>

theorem remux_success_condition_witness:
  "run_ffmpeg ok_world [(''/srv/uploads/clip-42.mp4'', 1024)] ''/srv/uploads/clip-42.mp4'' = Inr ()
   \<and> run_ffmpeg ok_world [(''/srv/uploads/clip-42.mp4'', 0)] ''/srv/uploads/clip-42.mp4''
       = Inl ''FFmpeg remux failed: Output file missing or empty. Stderr: frame=  240''
   \<and> run_ffmpeg remux_failing_world [(''/srv/uploads/clip-42.mp4'', 1024)] ''/srv/uploads/clip-42.mp4''
       = Inl ''FFmpeg remux failed with code 1. Stderr: Invalid data found''
   \<and> run_ffmpeg ok_world (disk_after (ffmpeg ok_world) (disk_after (ytDlp ok_world) []))
        (finalOutputPath ok_world) = Inr ()"
proof -
  have e: "ending (ffmpeg ok_world) = Close (Some 0)" by (simp add: ok_world_def)
  have 1: "run_ffmpeg ok_world [(''/srv/uploads/clip-42.mp4'', 1024)] ''/srv/uploads/clip-42.mp4'' = Inr ()"
    using remux_success_condition[of ok_world "[(''/srv/uploads/clip-42.mp4'', 1024)]"
        "''/srv/uploads/clip-42.mp4''"] e
    by (simp add: existsSync_def statSync_size_def)
  have 2: "run_ffmpeg ok_world [(''/srv/uploads/clip-42.mp4'', 0)] ''/srv/uploads/clip-42.mp4''
       = Inl ''FFmpeg remux failed: Output file missing or empty. Stderr: frame=  240''"
    using remux_success_condition[of ok_world "[(''/srv/uploads/clip-42.mp4'', 0)]"
        "''/srv/uploads/clip-42.mp4''"] e
    by (simp add: existsSync_def statSync_size_def remux_missing_message_def ok_world_def)
  have "ending (ffmpeg remux_failing_world) = Close (Some 1) \<and> Some (1::int) \<noteq> Some 0"
    by (simp add: remux_failing_world_def)
  with remux_success_condition[of remux_failing_world "[(''/srv/uploads/clip-42.mp4'', 1024)]"
        "''/srv/uploads/clip-42.mp4''" "Some 1"]
  have 3: "run_ffmpeg remux_failing_world [(''/srv/uploads/clip-42.mp4'', 1024)] ''/srv/uploads/clip-42.mp4''
       = Inl ''FFmpeg remux failed with code 1. Stderr: Invalid data found''"
    by (simp add: remux_failed_message_def show_code_def string_of_int_1 remux_failing_world_def)
  have "response (clip_handler ok_world example_request []) = clip_success (finalOutputPath ok_world)"
    by (simp add: ok_handler ok_names clip_success_def)
  with remux_success_condition[of ok_world _ _ _ _ _ _ example_request "[]"]
  have 4: "run_ffmpeg ok_world (disk_after (ffmpeg ok_world) (disk_after (ytDlp ok_world) []))
        (finalOutputPath ok_world) = Inr ()"
    by blast
  from 1 2 3 4 show ?thesis by simp
qed

subsection \<open>C5: a failed download stops the pipeline\<close>

text \<open>
  C5: when the Fetcher fails on a request with all three fields, the handler answers with
  that error, ffmpeg is never spawned, and the disk at the end is the disk the download
  left, cleaned up: the final file is there afterwards only if it was there before, with
  the same size.
\<close>

theorem fetch_failure_skips_remux:
  assumes "\<not> falsy (url req)" and "\<not> falsy (startTime req)" and "\<not> falsy (endTime req)"
    and "runYtDlpDownload w (disk_after (ytDlp w) d) (tempMuxedPathBase w) = Inl e"
  shows "response (clip_handler w req d) = server_error e
       \<and> (\<forall>args. Spawn ''ffmpeg'' args \<notin> set (trace (clip_handler w req d)))
       \<and> cleanup w (disk_after (ytDlp w) d) None
            = Inr (final_disk (clip_handler w req d),
                   drop 2 (trace (clip_handler w req d)))
       \<and> existsSync (final_disk (clip_handler w req d)) (finalOutputPath w)
            = existsSync (disk_after (ytDlp w) d) (finalOutputPath w)
       \<and> statSync_size (final_disk (clip_handler w req d)) (finalOutputPath w)
            = statSync_size (disk_after (ytDlp w) d) (finalOutputPath w)"
proof -
  let ?d1 = "disk_after (ytDlp w) d"
  have t: "try_body w req d
           = (Inl e, \<lparr>p_trace = [Spawn ''yt-dlp'' (ytDlp_args w req)], p_temp = None,
                      p_disk = ?d1\<rparr>)"
    using assms by (rule try_body_fetch_failed)
  obtain d' evs where c: "cleanup w ?d1 None = Inr (d', evs)"
    using cleanup_result[of w ?d1 None] by blast
  have h: "clip_handler w req d
             = \<lparr>response = server_error e,
                trace = [Spawn ''yt-dlp'' (ytDlp_args w req), Respond (server_error e)] @ evs,
                final_disk = d', rejection = None\<rparr>"
    unfolding clip_handler_def Let_def using t c by simp
  have evs: "\<forall>args. Spawn ''ffmpeg'' args \<notin> set evs"
    using cleanup_result[of w ?d1 None] c by auto
  have p: "finalOutputPath w \<notin> cleanup_paths w ?d1 None"
    using finalOutputPath_not_part[of w] by (simp add: cleanup_paths_iff)
  have ex: "existsSync d' (finalOutputPath w) = existsSync ?d1 (finalOutputPath w)"
    using cleanup_exists[OF c, of "finalOutputPath w"] p by simp
  have "map_of d' (finalOutputPath w) = map_of ?d1 (finalOutputPath w)"
    unfolding cleanup_disk[OF c] using p by (simp add: map_of_filter_keep)
  then have sz: "statSync_size d' (finalOutputPath w) = statSync_size ?d1 (finalOutputPath w)"
    unfolding statSync_size_def .
  show ?thesis using h c evs ex sz by simp
qed

text \<open>C5 at the download that exits with code 1.\<close>

theorem fetch_failure_skips_remux_witness:
  "response (clip_handler failing_world example_request [])
     = server_error ''yt-dlp download (muxed) failed with code 1. Stderr: ERROR: unavailable''
   \<and> Spawn ''ffmpeg'' (ffmpeg_args failing_world ''/srv/uploads/temp-muxed-42.mp4'')
       \<notin> set (trace (clip_handler failing_world example_request []))
   \<and> \<not> existsSync (final_disk (clip_handler failing_world example_request []))
         ''/srv/uploads/clip-42.mp4''"
proof -
  have "\<not> existsSync (disk_after (ytDlp failing_world) []) (finalOutputPath failing_world)"
    by (simp add: failing_world_def eval_defs)
  with fetch_failure_skips_remux[OF example_request_valid failing_fetch]
  show ?thesis by (simp add: failing_names)
qed

subsection \<open>C6: the directory search\<close>

text \<open>
  C6: when the download process exits with code zero and no destination was detected on
  stdout, the Fetcher lists the uploads directory and resolves to the first entry whose
  name starts with the basename of the output base; it fails only if there is no such
  entry (or the directory cannot be listed).
\<close>

theorem fallback_directory_search:
  assumes "ending (ytDlp w) = Close (Some 0)"
    and "detect base (stdout_chunks (ytDlp w)) = None"
  shows "runYtDlpDownload w d base
           = (if readdir_throws w then Inl (silent_failure_message (concat (stderr_chunks (ytDlp w))))
              else case find (prefix (path_basename base)) (dir_entries d (uploadsDir w)) of
                     Some foundFile \<Rightarrow> Inr (path_join (uploadsDir w) foundFile)
                   | None \<Rightarrow> Inl (silent_failure_message (concat (stderr_chunks (ytDlp w)))))"
  using assms unfolding runYtDlpDownload_def on_close_def
  by (simp add: find_downloaded_eq split: option.splits)

text \<open>
  C6 at a download whose announcement is not in the spelling the handler looks for: the
  first matching entry of three is resolved.
\<close>

theorem fallback_directory_search_witness:
  "runYtDlpDownload ok_world
     [(''/srv/uploads/clip-41.mp4'', 7), (''/srv/uploads/temp-muxed-42.mp4'', 2048),
      (''/srv/uploads/temp-muxed-42.f137.mp4'', 1500)]
     ''/srv/uploads/temp-muxed-42''
     = Inr ''/srv/uploads/temp-muxed-42.mp4''"
proof -
  have e: "ending (ytDlp ok_world) = Close (Some 0)" by (simp add: ok_world_def)
  have d: "detect ''/srv/uploads/temp-muxed-42'' (stdout_chunks (ytDlp ok_world)) = None"
    by (simp add: ok_world_def detect_def on_stdout_def destination_literal_def)
  show ?thesis
    unfolding fallback_directory_search[OF e d]
    by (simp add: ok_world_def dir_entries_def entry_name_def path_basename_def path_join_def)
qed

subsection \<open>C7: cleanup is idempotent and tolerates failures\<close>

text \<open>
  C7: Cleanup never rejects. An artifact is on the disk afterwards exactly if it was there
  and its own deletion failed, whatever happened to the other artifact, and the removal
  of each artifact that exists is attempted. A second Cleanup succeeds and leaves the
  disk as the first left it, doing nothing at all when no deletion fails. When both
  artifacts are absent Cleanup does nothing. The response of the handler does not depend
  on which deletions fail, and the handler itself never rejects.
\<close>

theorem cleanup_idempotent_tolerant:
  "(\<exists>d1 evs1. cleanup w d t = Inr (d1, evs1)
      \<and> existsSync d1 (partFilePath w)
          = (existsSync d (partFilePath w) \<and> unlink_fails w (partFilePath w))
      \<and> (\<forall>p. t = Some p \<and> p \<noteq> [] \<longrightarrow> existsSync d1 p = (existsSync d p \<and> unlink_fails w p))
      \<and> (Unlink (partFilePath w) \<in> set evs1) = existsSync d (partFilePath w)
      \<and> (\<forall>p. t = Some p \<and> p \<noteq> [] \<longrightarrow> (Unlink p \<in> set evs1) = existsSync d p)
      \<and> (\<exists>evs2. cleanup w d1 t = Inr (d1, evs2)
            \<and> ((\<forall>q. \<not> unlink_fails w q) \<longrightarrow> evs2 = [CleanupFinished])))
   \<and> ((t = None \<or> (\<exists>p. t = Some p \<and> \<not> existsSync d p)) \<and> \<not> existsSync d (partFilePath w)
        \<longrightarrow> cleanup w d t = Inr (d, [CleanupFinished]))
   \<and> response (clip_handler (w\<lparr>unlink_fails := f\<rparr>) req d0) = response (clip_handler w req d0)
   \<and> rejection (clip_handler w req d0) = None"
proof (intro conjI impI)
  obtain d1 evs1 where c: "cleanup w d t = Inr (d1, evs1)"
    using cleanup_result[of w d t] by blast
  obtain d2 evs2 where c2: "cleanup w d1 t = Inr (d2, evs2)"
    using cleanup_result[of w d1 t] by blast
  have same: "d2 = d1" using c c2 by (rule cleanup_twice_disk)
  have a1: "existsSync d1 (partFilePath w)
          = (existsSync d (partFilePath w) \<and> unlink_fails w (partFilePath w))"
    using cleanup_exists[OF c, of "partFilePath w"] by (auto simp: cleanup_paths_iff)
  have a2: "\<forall>p. t = Some p \<and> p \<noteq> [] \<longrightarrow> existsSync d1 p = (existsSync d p \<and> unlink_fails w p)"
    using cleanup_exists[OF c] by (auto simp: cleanup_paths_iff)
  have a3: "(Unlink (partFilePath w) \<in> set evs1) = existsSync d (partFilePath w)"
    using cleanup_unlink_events[OF c, of "partFilePath w"] by (auto simp: cleanup_paths_iff)
  have a4: "\<forall>p. t = Some p \<and> p \<noteq> [] \<longrightarrow> (Unlink p \<in> set evs1) = existsSync d p"
    using cleanup_unlink_events[OF c] by (auto simp: cleanup_paths_iff)
  have a5: "(\<forall>q. \<not> unlink_fails w q) \<longrightarrow> evs2 = [CleanupFinished]"
  proof
    assume "\<forall>q. \<not> unlink_fails w q"
    then have "cleanup w d1 t = Inr (d1, [CleanupFinished])"
      using cleanup_second_noop[OF c] by blast
    with c2 show "evs2 = [CleanupFinished]" by simp
  qed
  show "\<exists>d1 evs1. cleanup w d t = Inr (d1, evs1)
      \<and> existsSync d1 (partFilePath w)
          = (existsSync d (partFilePath w) \<and> unlink_fails w (partFilePath w))
      \<and> (\<forall>p. t = Some p \<and> p \<noteq> [] \<longrightarrow> existsSync d1 p = (existsSync d p \<and> unlink_fails w p))
      \<and> (Unlink (partFilePath w) \<in> set evs1) = existsSync d (partFilePath w)
      \<and> (\<forall>p. t = Some p \<and> p \<noteq> [] \<longrightarrow> (Unlink p \<in> set evs1) = existsSync d p)
      \<and> (\<exists>evs2. cleanup w d1 t = Inr (d1, evs2)
            \<and> ((\<forall>q. \<not> unlink_fails w q) \<longrightarrow> evs2 = [CleanupFinished]))"
    using c c2 same a1 a2 a3 a4 a5 by blast
next
  assume "(t = None \<or> (\<exists>p. t = Some p \<and> \<not> existsSync d p)) \<and> \<not> existsSync d (partFilePath w)"
  then have "cleanup_targets w d t = []"
    unfolding cleanup_targets_def by auto
  then show "cleanup w d t = Inr (d, [CleanupFinished])" by (rule cleanup_noop)
next
  show "response (clip_handler (w\<lparr>unlink_fails := f\<rparr>) req d0) = response (clip_handler w req d0)"
    by (simp add: clip_handler_response try_body_unlink_irrelevant)
next
  show "rejection (clip_handler w req d0) = None" by (rule clip_handler_rejection)
qed

text \<open>
  C7 where the temporary file cannot be deleted and a partial output exists, where
  nothing is to be removed, and for the response of the example.
\<close>

theorem cleanup_idempotent_tolerant_witness:
  "(\<exists>d1 evs1. cleanup locked_world after_remux_disk (Some ''/srv/uploads/temp-muxed-42.mp4'')
                  = Inr (d1, evs1)
      \<and> \<not> existsSync d1 ''/srv/uploads/clip-42.mp4.part''
      \<and> existsSync d1 ''/srv/uploads/temp-muxed-42.mp4''
      \<and> Unlink ''/srv/uploads/clip-42.mp4.part'' \<in> set evs1
      \<and> Unlink ''/srv/uploads/temp-muxed-42.mp4'' \<in> set evs1
      \<and> (\<exists>evs2. cleanup locked_world d1 (Some ''/srv/uploads/temp-muxed-42.mp4'') = Inr (d1, evs2)))
   \<and> cleanup locked_world [(''/srv/uploads/clip-42.mp4'', 1024)] None
       = Inr ([(''/srv/uploads/clip-42.mp4'', 1024)], [CleanupFinished])
   \<and> response (clip_handler locked_world example_request [])
       = response (clip_handler ok_world example_request [])
   \<and> rejection (clip_handler locked_world example_request []) = None"
proof -
  have ex: "existsSync after_remux_disk ''/srv/uploads/clip-42.mp4.part''"
    "existsSync after_remux_disk ''/srv/uploads/temp-muxed-42.mp4''"
    "\<not> existsSync [(''/srv/uploads/clip-42.mp4'', 1024)] ''/srv/uploads/clip-42.mp4.part''"
    by (simp_all add: after_remux_disk_def existsSync_def)
  note t = cleanup_idempotent_tolerant[where w = locked_world and d = after_remux_disk
      and t = "Some ''/srv/uploads/temp-muxed-42.mp4''" and req = example_request and ?d0.0 = "[]"]
  from t[THEN conjunct1] obtain d1 evs1 where
    a: "cleanup locked_world after_remux_disk (Some ''/srv/uploads/temp-muxed-42.mp4'') = Inr (d1, evs1)
      \<and> existsSync d1 (partFilePath locked_world)
          = (existsSync after_remux_disk (partFilePath locked_world)
             \<and> unlink_fails locked_world (partFilePath locked_world))
      \<and> (\<forall>p. Some ''/srv/uploads/temp-muxed-42.mp4'' = Some p \<and> p \<noteq> [] \<longrightarrow>
               existsSync d1 p = (existsSync after_remux_disk p \<and> unlink_fails locked_world p))
      \<and> (Unlink (partFilePath locked_world) \<in> set evs1)
               = existsSync after_remux_disk (partFilePath locked_world)
      \<and> (\<forall>p. Some ''/srv/uploads/temp-muxed-42.mp4'' = Some p \<and> p \<noteq> [] \<longrightarrow>
               (Unlink p \<in> set evs1) = existsSync after_remux_disk p)
      \<and> (\<exists>evs2. cleanup locked_world d1 (Some ''/srv/uploads/temp-muxed-42.mp4'') = Inr (d1, evs2)
            \<and> ((\<forall>q. \<not> unlink_fails locked_world q) \<longrightarrow> evs2 = [CleanupFinished]))"
    by (elim exE)
  then obtain evs2 where
    again: "cleanup locked_world d1 (Some ''/srv/uploads/temp-muxed-42.mp4'') = Inr (d1, evs2)"
    by (elim conjE exE)
  have c: "cleanup locked_world after_remux_disk (Some ''/srv/uploads/temp-muxed-42.mp4'') = Inr (d1, evs1)"
    using a by (elim conjE)
  have p: "\<not> existsSync d1 ''/srv/uploads/clip-42.mp4.part''"
    using a ex by (simp add: locked_names)
  have q: "existsSync d1 ''/srv/uploads/temp-muxed-42.mp4''"
    using a ex by (simp add: locked_names)
  have up: "Unlink ''/srv/uploads/clip-42.mp4.part'' \<in> set evs1"
    using a ex by (simp add: locked_names)
  have uq: "Unlink ''/srv/uploads/temp-muxed-42.mp4'' \<in> set evs1"
    using a ex by (simp add: locked_names)
  have 1: "\<exists>d1 evs1. cleanup locked_world after_remux_disk (Some ''/srv/uploads/temp-muxed-42.mp4'')
                  = Inr (d1, evs1)
      \<and> \<not> existsSync d1 ''/srv/uploads/clip-42.mp4.part''
      \<and> existsSync d1 ''/srv/uploads/temp-muxed-42.mp4''
      \<and> Unlink ''/srv/uploads/clip-42.mp4.part'' \<in> set evs1
      \<and> Unlink ''/srv/uploads/temp-muxed-42.mp4'' \<in> set evs1
      \<and> (\<exists>evs2. cleanup locked_world d1 (Some ''/srv/uploads/temp-muxed-42.mp4'') = Inr (d1, evs2))"
    using c p q up uq again by (intro exI conjI)
  have "(None = (None :: path option) \<or> (\<exists>p. None = Some p \<and> \<not> existsSync [(''/srv/uploads/clip-42.mp4'', 1024)] p))
        \<and> \<not> existsSync [(''/srv/uploads/clip-42.mp4'', 1024)] (partFilePath locked_world)"
    using ex by (simp add: locked_names)
  then have 2: "cleanup locked_world [(''/srv/uploads/clip-42.mp4'', 1024)] None
       = Inr ([(''/srv/uploads/clip-42.mp4'', 1024)], [CleanupFinished])"
    by (rule cleanup_idempotent_tolerant[where w = locked_world
      and d = "[(''/srv/uploads/clip-42.mp4'', 1024)]" and t = None,
      THEN conjunct2, THEN conjunct1, rule_format])
  have 3: "response (clip_handler locked_world example_request [])
       = response (clip_handler ok_world example_request [])"
    unfolding locked_world_def
    by (rule cleanup_idempotent_tolerant[where w = ok_world
        and f = "\<lambda>p. p = ''/srv/uploads/temp-muxed-42.mp4''" and req = example_request
        and ?d0.0 = "[]", THEN conjunct2, THEN conjunct2, THEN conjunct1])
  have 4: "rejection (clip_handler locked_world example_request []) = None"
    by (rule t[THEN conjunct2, THEN conjunct2, THEN conjunct2])
  from 1 2 3 4 show ?thesis by (intro conjI)
qed

subsection \<open>C8: validation of the request\<close>

text \<open>
  C8: when one of \<open>url\<close>, \<open>startTime\<close>, \<open>endTime\<close> is absent or empty, the handler
  answers with the client-input error first, spawns no process, and no file appears on
  the disk. When all three are present and not empty, whatever they contain, the handler
  does not answer with the client-input error and starts by spawning yt-dlp with the
  two time strings joined into the section argument.
\<close>

theorem missing_field_rejected:
  "(falsy (url req) \<or> falsy (startTime req) \<or> falsy (endTime req) \<longrightarrow>
      response (clip_handler w req d) = bad_request
      \<and> hd (trace (clip_handler w req d)) = Respond bad_request
      \<and> (\<forall>cmd args. Spawn cmd args \<notin> set (trace (clip_handler w req d)))
      \<and> set (final_disk (clip_handler w req d)) \<subseteq> set d)
   \<and> (url req = Some u \<and> u \<noteq> [] \<and> startTime req = Some s \<and> s \<noteq> []
        \<and> endTime req = Some e \<and> e \<noteq> [] \<longrightarrow>
      response (clip_handler w req d) \<noteq> bad_request
      \<and> (\<exists>rest. hd (trace (clip_handler w req d))
            = Spawn ''yt-dlp'' (u # ''-f'' # ''bestvideo+bestaudio/best'' # ''--download-sections''
                                # (''*'' @ s @ ''-'' @ e) # rest)))"
proof (intro conjI impI)
  assume a: "falsy (url req) \<or> falsy (startTime req) \<or> falsy (endTime req)"
  then have t: "try_body w req d = (Inr bad_request, \<lparr>p_trace = [], p_temp = None, p_disk = d\<rparr>)"
    by (rule try_body_invalid)
  from clip_handler_eq[OF t] obtain logs where
    h: "clip_handler w req d
           = \<lparr>response = bad_request,
              trace = [Respond bad_request]
                      @ map (\<lambda>(p, _). Unlink p) (cleanup_targets w d None)
                      @ logs @ [CleanupFinished],
              final_disk = filter (\<lambda>(q, _). unlink_fails w q \<or> q \<notin> cleanup_paths w d None) d,
              rejection = None\<rparr>"
    and l: "\<forall>e \<in> set logs. \<exists>s. e = ConsoleError s" by auto
  show "response (clip_handler w req d) = bad_request" using h by simp
  show "hd (trace (clip_handler w req d)) = Respond bad_request" using h by simp
  show "\<forall>cmd args. Spawn cmd args \<notin> set (trace (clip_handler w req d))"
    using h l by auto
  show "set (final_disk (clip_handler w req d)) \<subseteq> set d" using h by auto
next
  assume a: "url req = Some u \<and> u \<noteq> [] \<and> startTime req = Some s \<and> s \<noteq> []
        \<and> endTime req = Some e \<and> e \<noteq> []"
  then have v: "\<not> falsy (url req)" "\<not> falsy (startTime req)" "\<not> falsy (endTime req)"
    by (simp_all add: falsy_def)
  have args: "ytDlp_args w req = u # ''-f'' # ''bestvideo+bestaudio/best'' # ''--download-sections''
                                # (''*'' @ s @ ''-'' @ e) # drop 5 (ytDlp_args w req)"
    using a by (simp add: ytDlp_args_def template_def)
  have ne: "\<And>m. server_error m \<noteq> bad_request" "\<And>p. clip_success p \<noteq> bad_request"
    by (simp_all add: server_error_def clip_success_def bad_request_def)
  obtain r pr where t: "try_body w req d = (r, pr)" by (cases "try_body w req d")
  have "r \<noteq> Inr bad_request \<and> hd (p_trace pr @ [x]) = Spawn ''yt-dlp'' (ytDlp_args w req)" for x
  proof (cases "runYtDlpDownload w (disk_after (ytDlp w) d) (tempMuxedPathBase w)")
    case (Inl err)
    from try_body_fetch_failed[OF v Inl] t show ?thesis by auto
  next
    case (Inr p)
    from try_body_fetched[OF v Inr] t ne show ?thesis by (auto split: sum.splits)
  qed
  then have r: "r \<noteq> Inr bad_request"
    and hd: "\<And>x ys. hd (p_trace pr @ [x] @ ys) = Spawn ''yt-dlp'' (ytDlp_args w req)"
    by (auto simp: hd_append split: if_splits)
  from clip_handler_eq[OF t] obtain logs where
    h: "clip_handler w req d
           = \<lparr>response = (case r of Inr s \<Rightarrow> s | Inl msg \<Rightarrow> server_error msg),
              trace = p_trace pr @ [Respond (case r of Inr s \<Rightarrow> s | Inl msg \<Rightarrow> server_error msg)]
                      @ map (\<lambda>(p, _). Unlink p) (cleanup_targets w (p_disk pr) (p_temp pr))
                      @ logs @ [CleanupFinished],
              final_disk = filter (\<lambda>(q, _). unlink_fails w q
                                     \<or> q \<notin> cleanup_paths w (p_disk pr) (p_temp pr)) (p_disk pr),
              rejection = None\<rparr>" by auto
  show "response (clip_handler w req d) \<noteq> bad_request"
    using h r ne by (auto split: sum.splits)
  have "hd (trace (clip_handler w req d)) = Spawn ''yt-dlp'' (ytDlp_args w req)"
    unfolding h using hd by simp
  then show "\<exists>rest. hd (trace (clip_handler w req d))
            = Spawn ''yt-dlp'' (u # ''-f'' # ''bestvideo+bestaudio/best'' # ''--download-sections''
                                # (''*'' @ s @ ''-'' @ e) # rest)"
    using args by metis
qed

text \<open>C8 at a request without start time and at the request of the example.\<close>

theorem missing_field_rejected_witness:
  "response (clip_handler ok_world no_start_request stale_disk) = bad_request
   \<and> hd (trace (clip_handler ok_world no_start_request stale_disk)) = Respond bad_request
   \<and> set (final_disk (clip_handler ok_world no_start_request stale_disk)) \<subseteq> set stale_disk
   \<and> response (clip_handler ok_world example_request []) \<noteq> bad_request
   \<and> (\<exists>rest. hd (trace (clip_handler ok_world example_request []))
         = Spawn ''yt-dlp'' (''https://video.example/watch?id=42'' # ''-f''
             # ''bestvideo+bestaudio/best'' # ''--download-sections''
             # ''*00:00:10-00:00:20'' # rest))"
proof -
  have "falsy (url no_start_request) \<or> falsy (startTime no_start_request)
        \<or> falsy (endTime no_start_request)"
    by (simp add: no_start_request_def falsy_def)
  with missing_field_rejected[of no_start_request ok_world stale_disk]
  have 1: "response (clip_handler ok_world no_start_request stale_disk) = bad_request
   \<and> hd (trace (clip_handler ok_world no_start_request stale_disk)) = Respond bad_request
   \<and> set (final_disk (clip_handler ok_world no_start_request stale_disk)) \<subseteq> set stale_disk"
    by blast
  have "url example_request = Some ''https://video.example/watch?id=42''
        \<and> ''https://video.example/watch?id=42'' \<noteq> []
        \<and> startTime example_request = Some ''00:00:10'' \<and> ''00:00:10'' \<noteq> []
        \<and> endTime example_request = Some ''00:00:20'' \<and> ''00:00:20'' \<noteq> []"
    by (simp add: example_request_def)
  with missing_field_rejected[of example_request ok_world "[]"
      "''https://video.example/watch?id=42''" "''00:00:10''" "''00:00:20''"]
  have 2: "response (clip_handler ok_world example_request []) \<noteq> bad_request
   \<and> (\<exists>rest. hd (trace (clip_handler ok_world example_request []))
         = Spawn ''yt-dlp'' (''https://video.example/watch?id=42'' # ''-f''
             # ''bestvideo+bestaudio/best'' # ''--download-sections''
             # (''*'' @ ''00:00:10'' @ ''-'' @ ''00:00:20'') # rest))"
    by blast
  from 1 2 show ?thesis by simp
qed

subsection \<open>C9: a detected destination must exist\<close>

text \<open>
  C9: a path detected on stdout is the trimmed group of a matching chunk and starts with
  the output base. When the process closes with code zero, the detected path is the
  result if a file exists there; otherwise the result is that of the directory search.
\<close>

theorem detected_path_must_exist:
  assumes "ending (ytDlp w) = Close (Some 0)"
    and "detect base (stdout_chunks (ytDlp w)) = Some p"
    and "base \<noteq> []"
  shows "prefix base p
       \<and> (\<exists>chunk \<in> set (stdout_chunks (ytDlp w)). \<exists>g. destination_match chunk = Some g \<and> p = trim g)
       \<and> (existsSync d p \<longrightarrow> runYtDlpDownload w d base = Inr p)
       \<and> (\<not> existsSync d p \<longrightarrow>
            runYtDlpDownload w d base
              = (case find_downloaded w d base of
                   Some fullPath \<Rightarrow> Inr fullPath
                 | None \<Rightarrow> Inl (silent_failure_message (concat (stderr_chunks (ytDlp w))))))"
proof -
  have pre: "prefix base p" using assms(2) by (rule detect_prefix)
  then have ne: "p \<noteq> []" using assms(3) by auto
  have org: "\<exists>chunk \<in> set (stdout_chunks (ytDlp w)). \<exists>g. destination_match chunk = Some g \<and> p = trim g"
    using detect_origin_aux[of base None "stdout_chunks (ytDlp w)" p] assms(2)
    unfolding detect_def by simp
  show ?thesis
    using pre org ne assms(1,2) unfolding runYtDlpDownload_def on_close_def by simp
qed

text \<open>
  C9 at a download that announces a file: with the file on the disk the announced path
  is the result, without it the directory search decides.
\<close>

theorem detected_path_must_exist_witness:
  "runYtDlpDownload announced_world
     [(''/srv/uploads/temp-muxed-42.mp4'', 2048), (''/srv/uploads/temp-muxed-42.webm'', 4096)]
     ''/srv/uploads/temp-muxed-42''
     = Inr ''/srv/uploads/temp-muxed-42.webm''
   \<and> runYtDlpDownload announced_world
     [(''/srv/uploads/temp-muxed-42.mp4'', 2048)]
     ''/srv/uploads/temp-muxed-42''
     = Inr ''/srv/uploads/temp-muxed-42.mp4''"
proof -
  have e: "ending (ytDlp announced_world) = Close (Some 0)" by (simp add: announced_world_def)
  have d: "detect ''/srv/uploads/temp-muxed-42'' (stdout_chunks (ytDlp announced_world))
             = Some ''/srv/uploads/temp-muxed-42.webm''"
    by (simp add: announced_world_def detect_def on_stdout_def destination_literal_def trim_def
          is_white_space_def is_line_terminator_def)
  have n: "''/srv/uploads/temp-muxed-42'' \<noteq> []" by simp
  note t = detected_path_must_exist[OF e d n]
  have 1: "runYtDlpDownload announced_world
     [(''/srv/uploads/temp-muxed-42.mp4'', 2048), (''/srv/uploads/temp-muxed-42.webm'', 4096)]
     ''/srv/uploads/temp-muxed-42'' = Inr ''/srv/uploads/temp-muxed-42.webm''"
    using t[of "[(''/srv/uploads/temp-muxed-42.mp4'', 2048), (''/srv/uploads/temp-muxed-42.webm'', 4096)]"]
    by (simp add: existsSync_def)
  have 2: "runYtDlpDownload announced_world [(''/srv/uploads/temp-muxed-42.mp4'', 2048)]
     ''/srv/uploads/temp-muxed-42'' = Inr ''/srv/uploads/temp-muxed-42.mp4''"
    using t[of "[(''/srv/uploads/temp-muxed-42.mp4'', 2048)]"]
    by (simp add: existsSync_def find_downloaded_eq announced_world_def dir_entries_def
          entry_name_def path_basename_def path_join_def)
  from 1 2 show ?thesis by simp
qed

subsection \<open>C10: the shapes of the response\<close>

text \<open>
  C10: a missing field gives status 400 with the error "URL is required", whichever field
  it is. With all fields present, a failure of the Fetcher or of the remux gives status
  500 with the error "Failed to process video section" and the message of the failure
  as details, and a success of both gives the success response. No other response is
  ever sent.
\<close>

theorem failure_response_shapes:
  "(falsy (url req) \<or> falsy (startTime req) \<or> falsy (endTime req) \<longrightarrow>
      response (clip_handler w req d) = Response 400 (ClipError ''URL is required'' None))
   \<and> (\<not> falsy (url req) \<and> \<not> falsy (startTime req) \<and> \<not> falsy (endTime req) \<longrightarrow>
        (\<forall>e. runYtDlpDownload w (disk_after (ytDlp w) d) (tempMuxedPathBase w) = Inl e \<longrightarrow>
           response (clip_handler w req d)
             = Response 500 (ClipError ''Failed to process video section'' (Some e)))
      \<and> (\<forall>p e. runYtDlpDownload w (disk_after (ytDlp w) d) (tempMuxedPathBase w) = Inr p
               \<and> run_ffmpeg w (disk_after (ffmpeg w) (disk_after (ytDlp w) d)) (finalOutputPath w) = Inl e \<longrightarrow>
           response (clip_handler w req d)
             = Response 500 (ClipError ''Failed to process video section'' (Some e)))
      \<and> (\<forall>p. runYtDlpDownload w (disk_after (ytDlp w) d) (tempMuxedPathBase w) = Inr p
               \<and> run_ffmpeg w (disk_after (ffmpeg w) (disk_after (ytDlp w) d)) (finalOutputPath w) = Inr () \<longrightarrow>
           response (clip_handler w req d)
             = Response 200 (ClipOk (finalOutputPath w) ''Video section processed successfully'')))
   \<and> (response (clip_handler w req d) = Response 400 (ClipError ''URL is required'' None)
      \<or> (\<exists>m. response (clip_handler w req d)
                = Response 500 (ClipError ''Failed to process video section'' (Some m)))
      \<or> response (clip_handler w req d)
           = Response 200 (ClipOk (finalOutputPath w) ''Video section processed successfully''))"
proof -
  let ?fetch = "runYtDlpDownload w (disk_after (ytDlp w) d) (tempMuxedPathBase w)"
  let ?remux = "run_ffmpeg w (disk_after (ffmpeg w) (disk_after (ytDlp w) d)) (finalOutputPath w)"
  let ?out = "response (clip_handler w req d)"
  have inv: "falsy (url req) \<or> falsy (startTime req) \<or> falsy (endTime req) \<Longrightarrow>
      ?out = Response 400 (ClipError ''URL is required'' None)"
    by (simp add: clip_handler_response try_body_invalid bad_request_def)
  have f: "?out = Response 500 (ClipError ''Failed to process video section'' (Some e))"
    if "\<not> falsy (url req)" "\<not> falsy (startTime req)" "\<not> falsy (endTime req)" "?fetch = Inl e" for e
    using that by (simp add: clip_handler_response try_body_fetch_failed server_error_def)
  have r: "?out = Response 500 (ClipError ''Failed to process video section'' (Some e))"
    if "\<not> falsy (url req)" "\<not> falsy (startTime req)" "\<not> falsy (endTime req)"
      "?fetch = Inr p" "?remux = Inl e" for p e
    using that by (simp add: clip_handler_response try_body_fetched server_error_def)
  have s: "?out = Response 200 (ClipOk (finalOutputPath w) ''Video section processed successfully'')"
    if "\<not> falsy (url req)" "\<not> falsy (startTime req)" "\<not> falsy (endTime req)"
      "?fetch = Inr p" "?remux = Inr ()" for p
    using that by (simp add: clip_handler_response try_body_fetched clip_success_def)
  have shapes: "?out = Response 400 (ClipError ''URL is required'' None)
      \<or> (\<exists>m. ?out = Response 500 (ClipError ''Failed to process video section'' (Some m)))
      \<or> ?out = Response 200 (ClipOk (finalOutputPath w) ''Video section processed successfully'')"
  proof (cases "falsy (url req) \<or> falsy (startTime req) \<or> falsy (endTime req)")
    case True
    then show ?thesis using inv by blast
  next
    case False
    then have v: "\<not> falsy (url req)" "\<not> falsy (startTime req)" "\<not> falsy (endTime req)" by auto
    show ?thesis
    proof (cases ?fetch)
      case (Inl e)
      then show ?thesis using f[OF v] by blast
    next
      case (Inr p)
      note p = this
      show ?thesis
      proof (cases ?remux)
        case (Inl e)
        then show ?thesis using r[OF v p] by blast
      next
        case (Inr u)
        then show ?thesis using s[OF v p] by simp
      qed
    qed
  qed
  show ?thesis using inv f r s shapes by blast
qed

text \<open>
  C10 at a request without start time, at a failed download, at a failed remux and at
  the successful run of the example.
\<close>

theorem failure_response_shapes_witness:
  "response (clip_handler ok_world no_start_request [])
     = Response 400 (ClipError ''URL is required'' None)
   \<and> response (clip_handler failing_world example_request [])
     = Response 500 (ClipError ''Failed to process video section''
         (Some ''yt-dlp download (muxed) failed with code 1. Stderr: ERROR: unavailable''))
   \<and> response (clip_handler remux_failing_world example_request [])
     = Response 500 (ClipError ''Failed to process video section''
         (Some ''FFmpeg remux failed with code 1. Stderr: Invalid data found''))
   \<and> response (clip_handler ok_world example_request [])
     = Response 200 (ClipOk ''/srv/uploads/clip-42.mp4'' ''Video section processed successfully'')"
proof -
  have m: "falsy (url no_start_request) \<or> falsy (startTime no_start_request)
        \<or> falsy (endTime no_start_request)"
    by (simp add: no_start_request_def falsy_def)
  have v: "\<not> falsy (url example_request) \<and> \<not> falsy (startTime example_request)
        \<and> \<not> falsy (endTime example_request)"
    using example_request_valid by simp
  have 1: "response (clip_handler ok_world no_start_request [])
     = Response 400 (ClipError ''URL is required'' None)"
    using failure_response_shapes[of no_start_request ok_world "[]"] m by blast
  have 2: "response (clip_handler failing_world example_request [])
     = Response 500 (ClipError ''Failed to process video section''
         (Some ''yt-dlp download (muxed) failed with code 1. Stderr: ERROR: unavailable''))"
    using failure_response_shapes[of example_request failing_world "[]"] v failing_fetch by blast
  have 3: "response (clip_handler remux_failing_world example_request [])
     = Response 500 (ClipError ''Failed to process video section''
         (Some ''FFmpeg remux failed with code 1. Stderr: Invalid data found''))"
    using failure_response_shapes[of example_request remux_failing_world "[]"] v
      remux_failing_fetch remux_failing_remux by blast
  have 4: "response (clip_handler ok_world example_request [])
     = Response 200 (ClipOk (finalOutputPath ok_world) ''Video section processed successfully'')"
    using failure_response_shapes[of example_request ok_world "[]"] v ok_fetch ok_remux by blast
  from 1 2 3 4 show ?thesis by (simp add: ok_names)
qed

end
